theory Spec2Isabelle
  imports Complex_Main
begin

section \<open>Python values used by the generator\<close>

text \<open>
  The generator of \<^verbatim>\<open>standalone_camera_json.py\<close> computes with Python floats. A float
  is modelled as a real number or one of the three non-finite values. Arithmetic on finite
  values is exact real arithmetic: binary64 rounding, overflow to infinity, underflow and
  the sign of zero are not part of this model. Operations that raise in Python return
  \<open>Inl\<close> of the exception.
\<close>

datatype pyfloat = Fin real | PInf | NInf | NaN

datatype error = ValueError string | ZeroDivisionError

type_synonym 'a result = "error + 'a"

type_synonym vec3 = "pyfloat \<times> pyfloat \<times> pyfloat"

definition res_bind :: "'a result \<Rightarrow> ('a \<Rightarrow> 'b result) \<Rightarrow> 'b result" where
  "res_bind m f = (case m of Inl e \<Rightarrow> Inl e | Inr v \<Rightarrow> f v)"

text \<open>\<^verbatim>\<open>for x in xs: out.append(f(x))\<close>, where \<open>f\<close> may raise: the first exception ends
  the loop.\<close>

fun traverse :: "('a \<Rightarrow> 'b result) \<Rightarrow> 'a list \<Rightarrow> 'b list result" where
  "traverse f [] = Inr []"
| "traverse f (x # xs) =
     res_bind (f x) (\<lambda>y. res_bind (traverse f xs) (\<lambda>ys. Inr (y # ys)))"

definition is_finite :: "pyfloat \<Rightarrow> bool" where
  "is_finite x = (case x of Fin _ \<Rightarrow> True | _ \<Rightarrow> False)"

text \<open>Unary minus.\<close>

fun py_neg :: "pyfloat \<Rightarrow> pyfloat" where
  "py_neg (Fin a) = Fin (- a)"
| "py_neg PInf = NInf"
| "py_neg NInf = PInf"
| "py_neg NaN = NaN"

text \<open>\<^verbatim>\<open>x + y\<close>\<close>

fun py_add :: "pyfloat \<Rightarrow> pyfloat \<Rightarrow> pyfloat" where
  "py_add (Fin a) (Fin b) = Fin (a + b)"
| "py_add NaN _ = NaN"
| "py_add _ NaN = NaN"
| "py_add PInf NInf = NaN"
| "py_add NInf PInf = NaN"
| "py_add PInf _ = PInf"
| "py_add _ PInf = PInf"
| "py_add NInf _ = NInf"
| "py_add _ NInf = NInf"

text \<open>\<^verbatim>\<open>x - y\<close>\<close>

definition py_sub :: "pyfloat \<Rightarrow> pyfloat \<Rightarrow> pyfloat" where
  "py_sub x y = py_add x (py_neg y)"

text \<open>\<^verbatim>\<open>x * y\<close>: an infinity times zero is NaN, otherwise the signs multiply.\<close>

fun py_mul :: "pyfloat \<Rightarrow> pyfloat \<Rightarrow> pyfloat" where
  "py_mul (Fin a) (Fin b) = Fin (a * b)"
| "py_mul NaN _ = NaN"
| "py_mul _ NaN = NaN"
| "py_mul (Fin a) y = (if a = 0 then NaN else if 0 < a then y else py_neg y)"
| "py_mul x (Fin b) = (if b = 0 then NaN else if 0 < b then x else py_neg x)"
| "py_mul PInf y = y"
| "py_mul NInf y = py_neg y"

text \<open>\<^verbatim>\<open>x / y\<close>: a zero divisor raises ZeroDivisionError whatever the dividend is.\<close>

fun py_truediv :: "pyfloat \<Rightarrow> pyfloat \<Rightarrow> pyfloat result" where
  "py_truediv x (Fin b) =
     (if b = 0 then Inl ZeroDivisionError
      else Inr (case x of
                  Fin a \<Rightarrow> Fin (a / b)
                | NaN \<Rightarrow> NaN
                | _ \<Rightarrow> (if 0 < b then x else py_neg x)))"
| "py_truediv NaN _ = Inr NaN"
| "py_truediv _ NaN = Inr NaN"
| "py_truediv (Fin a) _ = Inr (Fin 0)"
| "py_truediv _ _ = Inr NaN"

text \<open>\<^verbatim>\<open>math.sqrt\<close>, \<^verbatim>\<open>math.cos\<close>, \<^verbatim>\<open>math.sin\<close>: a ValueError outside the domain.\<close>

fun math_sqrt :: "pyfloat \<Rightarrow> pyfloat result" where
  "math_sqrt (Fin a) = (if a < 0 then Inl (ValueError ''math domain error'') else Inr (Fin (sqrt a)))"
| "math_sqrt PInf = Inr PInf"
| "math_sqrt NInf = Inl (ValueError ''math domain error'')"
| "math_sqrt NaN = Inr NaN"

fun math_cos :: "pyfloat \<Rightarrow> pyfloat result" where
  "math_cos (Fin a) = Inr (Fin (cos a))"
| "math_cos NaN = Inr NaN"
| "math_cos _ = Inl (ValueError ''math domain error'')"

fun math_sin :: "pyfloat \<Rightarrow> pyfloat result" where
  "math_sin (Fin a) = Inr (Fin (sin a))"
| "math_sin NaN = Inr NaN"
| "math_sin _ = Inl (ValueError ''math domain error'')"

text \<open>\<^verbatim>\<open>math.atan\<close> and \<^verbatim>\<open>math.degrees\<close> never raise.\<close>

fun math_atan :: "pyfloat \<Rightarrow> pyfloat" where
  "math_atan (Fin a) = Fin (arctan a)"
| "math_atan PInf = Fin (pi / 2)"
| "math_atan NInf = Fin (- (pi / 2))"
| "math_atan NaN = NaN"

definition math_degrees :: "pyfloat \<Rightarrow> pyfloat" where
  "math_degrees x = py_mul x (Fin (180 / pi))"

text \<open>\<^verbatim>\<open>round(x, ndigits)\<close> on a float: the nearest multiple of \<open>10 powi (- ndigits)\<close>, a tie
  going to the even one; infinities and NaN round to themselves.\<close>

definition round_half_even :: "real \<Rightarrow> int" where
  "round_half_even r =
     (let f = \<lfloor>r\<rfloor>; d = r - of_int f
      in if d < 1 / 2 then f else if 1 / 2 < d then f + 1 else if even f then f else f + 1)"

fun py_round :: "pyfloat \<Rightarrow> int \<Rightarrow> pyfloat" where
  "py_round (Fin a) ndigits = Fin (of_int (round_half_even (a * 10 powi ndigits)) / 10 powi ndigits)"
| "py_round x ndigits = x"

text \<open>\<^verbatim>\<open>x == 0\<close> for a float \<open>x\<close>.\<close>

fun py_eq0 :: "pyfloat \<Rightarrow> bool" where
  "py_eq0 (Fin a) = (a = 0)"
| "py_eq0 _ = False"

section \<open>Coordinate conversion\<close>

text \<open>\<^verbatim>\<open>convert_coordinates\<close> (lines 139 to 154): each triple \<open>(x, y, z)\<close> of both lists
  becomes \<open>(x, z, -y)\<close>.\<close>

fun convert_point :: "vec3 \<Rightarrow> vec3" where
  "convert_point (x, y, z) = (x, z, py_neg y)"

definition convert_coordinates :: "vec3 list \<Rightarrow> vec3 list \<Rightarrow> vec3 list \<times> vec3 list" where
  "convert_coordinates positions targets = (map convert_point positions, map convert_point targets)"

section \<open>Path sampling\<close>

text \<open>\<^verbatim>\<open>range(frames)\<close>: the indices \<open>0, \<dots>, frames - 1\<close>, none when \<open>frames \<le> 0\<close>.\<close>

definition range_py :: "int \<Rightarrow> int list" where
  "range_py n = [0..n - 1]"

text \<open>\<^verbatim>\<open>dir_mult = -1 if direction == "clockwise" else 1\<close>\<close>

definition dir_mult :: "string \<Rightarrow> int" where
  "dir_mult direction = (if direction = ''clockwise'' then - 1 else 1)"

text \<open>\<^verbatim>\<open>calculate_circular_path\<close> (lines 52 to 74). The angle is computed from integers and
  \<open>pi\<close> only, and the division by \<open>frames\<close> happens inside the loop, where \<open>frames \<ge> 1\<close>.\<close>

fun circular_position :: "vec3 \<Rightarrow> pyfloat \<Rightarrow> int \<Rightarrow> string \<Rightarrow> int \<Rightarrow> vec3 result" where
  "circular_position (c0, c1, c2) radius frames direction frame =
     (let angle = Fin ((2 * pi * of_int frame / of_int frames) * of_int (dir_mult direction))
      in res_bind (math_cos angle) (\<lambda>cos_angle.
         let x = py_add c0 (py_mul radius cos_angle)
         in res_bind (math_sin angle) (\<lambda>sin_angle.
            let y = py_add c1 (py_mul radius sin_angle);
                z = c2
            in Inr (x, y, z))))"

definition calculate_circular_path :: "vec3 \<Rightarrow> pyfloat \<Rightarrow> int \<Rightarrow> string \<Rightarrow> vec3 list result" where
  "calculate_circular_path center radius frames direction =
     traverse (circular_position center radius frames direction) (range_py frames)"

text \<open>\<^verbatim>\<open>calculate_spiral_path\<close> (lines 76 to 108). The normalized time \<open>t\<close> is computed from
  integers; the angle involves the float \<open>loops\<close> and can be infinite, where \<^verbatim>\<open>math.cos\<close>
  raises.\<close>

fun spiral_position ::
  "vec3 \<Rightarrow> pyfloat \<Rightarrow> pyfloat \<Rightarrow> pyfloat \<Rightarrow> pyfloat \<Rightarrow> pyfloat \<Rightarrow> int \<Rightarrow> string \<Rightarrow> int \<Rightarrow> vec3 result" where
  "spiral_position (c0, c1, c2) start_radius end_radius start_height end_height loops frames direction frame =
     (let t = (if frames > 1 then of_int frame / of_int (frames - 1) else 0);
          angle = py_mul (py_mul (py_mul (Fin (2 * pi)) loops) (Fin t)) (Fin (of_int (dir_mult direction)));
          radius = py_add start_radius (py_mul (py_sub end_radius start_radius) (Fin t));
          height = py_add start_height (py_mul (py_sub end_height start_height) (Fin t))
      in res_bind (math_cos angle) (\<lambda>cos_angle.
         let x = py_add c0 (py_mul radius cos_angle)
         in res_bind (math_sin angle) (\<lambda>sin_angle.
            let y = py_add c1 (py_mul radius sin_angle);
                z = py_add c2 height
            in Inr (x, y, z))))"

definition calculate_spiral_path ::
  "vec3 \<Rightarrow> pyfloat \<Rightarrow> pyfloat \<Rightarrow> pyfloat \<Rightarrow> pyfloat \<Rightarrow> pyfloat \<Rightarrow> int \<Rightarrow> string \<Rightarrow> vec3 list result" where
  "calculate_spiral_path center start_radius end_radius start_height end_height loops frames direction =
     traverse (spiral_position center start_radius end_radius start_height end_height loops frames direction)
       (range_py frames)"

section \<open>Targets\<close>

text \<open>\<^verbatim>\<open>calculate_target_from_distance\<close> (lines 110 to 137).\<close>

fun calculate_target_from_distance :: "vec3 \<Rightarrow> vec3 \<Rightarrow> pyfloat \<Rightarrow> vec3 result" where
  "calculate_target_from_distance (px, py, pz) (cx, cy, cz) distance =
     (let dx = py_sub cx px;
          dy = py_sub cy py;
          dz = py_sub cz pz
      in res_bind (math_sqrt (py_add (py_add (py_mul dx dx) (py_mul dy dy)) (py_mul dz dz))) (\<lambda>length.
         if py_eq0 length then Inr (cx, cy, cz)
         else res_bind (py_truediv dx length) (\<lambda>dx.
              res_bind (py_truediv dy length) (\<lambda>dy.
              res_bind (py_truediv dz length) (\<lambda>dz.
              let tx = py_add px (py_mul dx distance);
                  ty = py_add py (py_mul dy distance);
                  tz = py_add pz (py_mul dz distance)
              in Inr (tx, ty, tz))))))"

section \<open>The generation entry point\<close>

text \<open>The keyword arguments of \<^verbatim>\<open>generate_camera_animation\<close> (lines 156 to 174); \<open>None\<close> is
  Python's \<^verbatim>\<open>None\<close>.\<close>

record gen_args =
  animation_type :: string
  direction :: string
  center :: vec3
  target :: "vec3 option"
  target_distance :: "pyfloat option"
  radius :: pyfloat
  start_radius :: pyfloat
  end_radius :: pyfloat
  start_height :: pyfloat
  end_height :: pyfloat
  spiral_loops :: pyfloat
  frames :: int
  fps :: int
  focal_length :: pyfloat
  sensor_size :: pyfloat
  convert_coords :: bool
  precision :: int
  keyframe_step :: int

text \<open>The values the output dictionary holds. A dictionary is the list of its items in
  insertion order, which is the order \<^verbatim>\<open>json.dump\<close> writes them in.\<close>

datatype json = JInt int | JFloat pyfloat | JStr string | JList "json list"
  | JDict "(string \<times> json) list"

text \<open>\<^verbatim>\<open>list(t)\<close> for a coordinate triple.\<close>

fun list_of_vec3 :: "vec3 \<Rightarrow> json" where
  "list_of_vec3 (x, y, z) = JList [JFloat x, JFloat y, JFloat z]"

text \<open>\<^verbatim>\<open>focal_length_to_fov\<close> (lines 33 to 45, the second of two identical definitions).\<close>

definition focal_length_to_fov :: "pyfloat \<Rightarrow> pyfloat \<Rightarrow> pyfloat result" where
  "focal_length_to_fov focal_len sensor =
     res_bind (py_truediv sensor (py_mul (Fin 2) focal_len)) (\<lambda>q.
       let fov_radians = py_mul (Fin 2) (math_atan q);
           fov_degrees = math_degrees fov_radians
       in Inr fov_degrees)"

text \<open>Lines 188 to 199: one target for each position.\<close>

definition target_list :: "gen_args \<Rightarrow> vec3 list \<Rightarrow> vec3 list result" where
  "target_list a positions =
     (case target_distance a of
        Some d \<Rightarrow> traverse (\<lambda>pos. calculate_target_from_distance pos (center a) d) positions
      | None \<Rightarrow>
          (case target a of
             Some t \<Rightarrow> Inr (replicate (nat (frames a)) t)
           | None \<Rightarrow> Inr (replicate (nat (frames a)) (center a))))"

text \<open>\<^verbatim>\<open>round_tuple\<close> (lines 206 and 207).\<close>

fun round_tuple :: "vec3 \<Rightarrow> int \<Rightarrow> vec3" where
  "round_tuple (x, y, z) ndigits = (py_round x ndigits, py_round y ndigits, py_round z ndigits)"

text \<open>\<^verbatim>\<open>f"{n:04d}"\<close>: the decimal digits of \<open>n\<close>, padded with zeros to four characters, the
  sign counting as one of them.\<close>

fun digits_of :: "nat \<Rightarrow> string" where
  "digits_of n = (if n < 10 then [''0123456789'' ! n] else digits_of (n div 10) @ [''0123456789'' ! (n mod 10)])"

declare digits_of.simps [simp del]

definition zero_pad :: "nat \<Rightarrow> string \<Rightarrow> string" where
  "zero_pad w s = replicate (w - length s) (CHR ''0'') @ s"

definition format_04d :: "int \<Rightarrow> string" where
  "format_04d n = (if n < 0 then CHR ''-'' # zero_pad 3 (digits_of (nat (- n))) else zero_pad 4 (digits_of (nat n)))"

text \<open>The dictionary of one pose (lines 220 to 229). \<^verbatim>\<open>frame_num / fps\<close> divides two integers.\<close>

definition make_pose :: "gen_args \<Rightarrow> pyfloat \<Rightarrow> int \<Rightarrow> vec3 \<Rightarrow> vec3 \<Rightarrow> json result" where
  "make_pose a fov i pos tgt =
     (let frame_num = i + 1
      in if fps a = 0 then Inl ZeroDivisionError
         else Inr (JDict
           [(''frame'', JInt frame_num),
            (''time'', JFloat (Fin (of_int frame_num / of_int (fps a)))),
            (''position'', list_of_vec3 pos),
            (''target'', list_of_vec3 tgt),
            (''focal_length'', JFloat (focal_length a)),
            (''fov'', JFloat (py_round fov 2)),
            (''name'', JStr (''camera_frame_'' @ format_04d frame_num))]))"

text \<open>The loop of lines 216 to 230 over \<^verbatim>\<open>enumerate(zip(positions, targets))\<close>; \<open>n\<close> is
  \<^verbatim>\<open>len(positions)\<close>. \<^verbatim>\<open>i % keyframe_step\<close> raises for a zero step.\<close>

fun build_poses :: "gen_args \<Rightarrow> pyfloat \<Rightarrow> int \<Rightarrow> (int \<times> vec3 \<times> vec3) list \<Rightarrow> json list result" where
  "build_poses a fov n [] = Inr []"
| "build_poses a fov n ((i, pos, tgt) # rest) =
     (if keyframe_step a = 0 then Inl ZeroDivisionError
      else if i mod keyframe_step a = 0 \<or> i = n - 1 then
        res_bind (make_pose a fov i pos tgt) (\<lambda>pose.
        res_bind (build_poses a fov n rest) (\<lambda>poses. Inr (pose # poses)))
      else build_poses a fov n rest)"

text \<open>\<^verbatim>\<open>enumerate(xs)\<close>\<close>

definition enumerate_py :: "'a list \<Rightarrow> (int \<times> 'a) list" where
  "enumerate_py xs = zip (map int [0..<length xs]) xs"

text \<open>The output dictionary (lines 233 to 271). \<open>now\<close> is \<^verbatim>\<open>datetime.now().isoformat()\<close>.\<close>

definition json_record :: "gen_args \<Rightarrow> string \<Rightarrow> json list \<Rightarrow> (string \<times> json) list" where
  "json_record a now poses =
     [(''camera_name'', JStr ''Generated_Camera''),
      (''frame_rate'', JInt (fps a)),
      (''frame_start'', JInt 1),
      (''frame_end'', JInt (frames a)),
      (''frame_step'', JInt 1),
      (''coordinate_system'', JStr (if convert_coords a then ''SUPERSPLAT'' else ''BLENDER'')),
      (''total_frames'', JInt (frames a)),
      (''keyframes_generated'', JInt (int (length poses))),
      (''keyframe_step'', JInt (keyframe_step a)),
      (''animation_type'', JStr (animation_type a)),
      (''direction'', JStr (direction a)),
      (''export_timestamp'', JStr now),
      (''coordinate_precision'', JInt (precision a)),
      (''center'', list_of_vec3 (center a)),
      (''poses'', JList poses)]
     @ (case target_distance a of
          Some d \<Rightarrow> [(''target_distance'', JFloat d)]
        | None \<Rightarrow> (case target a of Some t \<Rightarrow> [(''target'', list_of_vec3 t)] | None \<Rightarrow> []))
     @ (if animation_type a = ''circular'' then [(''radius'', JFloat (radius a))]
        else if animation_type a = ''spiral'' then
          [(''spiral_loops'', JFloat (spiral_loops a)),
           (''start_radius'', JFloat (start_radius a)),
           (''end_radius'', JFloat (end_radius a)),
           (''start_height'', JFloat (start_height a)),
           (''end_height'', JFloat (end_height a))]
        else [])
     @ [(''generator'', JStr ''Standalone Camera JSON Generator v1.0'')]"

text \<open>Lines 178 to 185: the positions, or the ValueError for an unknown animation type.\<close>

definition sample_positions :: "gen_args \<Rightarrow> vec3 list result" where
  "sample_positions a =
     (if animation_type a = ''circular'' then
        calculate_circular_path (center a) (radius a) (frames a) (direction a)
      else if animation_type a = ''spiral'' then
        calculate_spiral_path (center a) (start_radius a) (end_radius a)
          (start_height a) (end_height a) (spiral_loops a) (frames a) (direction a)
      else Inl (ValueError (''Unknown animation type: '' @ animation_type a)))"

text \<open>Lines 201 to 210: the optional conversion, then the rounding of both lists.\<close>

definition convert_and_round :: "gen_args \<Rightarrow> vec3 list \<Rightarrow> vec3 list \<Rightarrow> vec3 list \<times> vec3 list" where
  "convert_and_round a positions targets =
     (let (positions, targets) =
            (if convert_coords a then convert_coordinates positions targets else (positions, targets))
      in (map (\<lambda>pos. round_tuple pos (precision a)) positions,
          map (\<lambda>tgt. round_tuple tgt (precision a)) targets))"

text \<open>\<^verbatim>\<open>generate_camera_animation\<close> (lines 156 to 273).\<close>

definition generate_camera_animation :: "gen_args \<Rightarrow> string \<Rightarrow> (string \<times> json) list result" where
  "generate_camera_animation a now =
     res_bind (sample_positions a) (\<lambda>positions.
     res_bind (target_list a positions) (\<lambda>targets.
     let (positions, targets) = convert_and_round a positions targets
     in res_bind (focal_length_to_fov (focal_length a) (sensor_size a)) (\<lambda>fov.
        res_bind (build_poses a fov (int (length positions)) (enumerate_py (zip positions targets))) (\<lambda>poses.
        Inr (json_record a now poses)))))"

text \<open>Reading the output: the value of a key, and the list of emitted poses.\<close>

definition field :: "(string \<times> json) list \<Rightarrow> string \<Rightarrow> json option" where
  "field d k = map_of d k"

fun pose_field :: "json \<Rightarrow> string \<Rightarrow> json option" where
  "pose_field (JDict d) k = map_of d k"
| "pose_field _ k = None"

text \<open>The keyword defaults of the signature (lines 157 to 174).\<close>

definition default_args :: gen_args where
  "default_args =
     \<lparr>animation_type = ''circular'', direction = ''clockwise'',
      center = (Fin 0, Fin 0, Fin 0), target = None, target_distance = None,
      radius = Fin 10, start_radius = Fin 5, end_radius = Fin 15,
      start_height = Fin 0, end_height = Fin 10, spiral_loops = Fin 2,
      frames = 180, fps = 24, focal_length = Fin 35, sensor_size = Fin 32,
      convert_coords = True, precision = 6, keyframe_step = 1\<rparr>"

section \<open>Notions used to state the properties\<close>

text \<open>The angle of frame \<open>i\<close> on a circle of \<open>N\<close> frames, and the normalized time of frame
  \<open>i\<close> on a spiral of \<open>N\<close> frames.\<close>

definition circular_angle :: "int \<Rightarrow> string \<Rightarrow> int \<Rightarrow> real" where
  "circular_angle N dir i = 2 * pi * of_int i / of_int N * (if dir = ''clockwise'' then - 1 else 1)"

definition spiral_t :: "int \<Rightarrow> int \<Rightarrow> real" where
  "spiral_t N i = (if N > 1 then of_int i / of_int (N - 1) else 0)"

text \<open>The dictionary that \<open>make_pose\<close> returns when the frame rate is not zero.\<close>

definition pose_dict :: "gen_args \<Rightarrow> pyfloat \<Rightarrow> int \<Rightarrow> vec3 \<Rightarrow> vec3 \<Rightarrow> json" where
  "pose_dict a fov i pos tgt =
     JDict
       [(''frame'', JInt (i + 1)),
        (''time'', JFloat (Fin (of_int (i + 1) / of_int (fps a)))),
        (''position'', list_of_vec3 pos),
        (''target'', list_of_vec3 tgt),
        (''focal_length'', JFloat (focal_length a)),
        (''fov'', JFloat (py_round fov 2)),
        (''name'', JStr (''camera_frame_'' @ format_04d (i + 1)))]"

text \<open>The test of line 219 on the index \<open>i\<close> of a frame, out of \<open>n\<close> frames.\<close>

definition is_keyframe :: "gen_args \<Rightarrow> int \<Rightarrow> int \<Rightarrow> bool" where
  "is_keyframe a n i \<longleftrightarrow> i mod keyframe_step a = 0 \<or> i = n - 1"

text \<open>What reaches the pose loop for frame \<open>k\<close>: the optional conversion, then the rounding.\<close>

definition final_point :: "gen_args \<Rightarrow> vec3 \<Rightarrow> vec3" where
  "final_point a p = round_tuple (if convert_coords a then convert_point p else p) (precision a)"

text \<open>The poses the loop emits from the positions \<open>ps\<close> and targets \<open>ts\<close> computed before
  conversion and rounding, when nothing raises.\<close>

definition emitted :: "gen_args \<Rightarrow> pyfloat \<Rightarrow> vec3 list \<Rightarrow> vec3 list \<Rightarrow> json list" where
  "emitted a fov ps ts =
     map (\<lambda>k. pose_dict a fov (int k) (final_point a (ps ! k)) (final_point a (ts ! k)))
       (filter (\<lambda>k. is_keyframe a (frames a) (int k)) [0..<nat (frames a)])"

text \<open>All float arguments are finite (a fixed target may be anything).\<close>

fun finite_vec3 :: "vec3 \<Rightarrow> bool" where
  "finite_vec3 (x, y, z) \<longleftrightarrow> is_finite x \<and> is_finite y \<and> is_finite z"

definition finite_args :: "gen_args \<Rightarrow> bool" where
  "finite_args a \<longleftrightarrow>
     finite_vec3 (center a) \<and> is_finite (radius a) \<and>
     is_finite (start_radius a) \<and> is_finite (end_radius a) \<and>
     is_finite (start_height a) \<and> is_finite (end_height a) \<and> is_finite (spiral_loops a) \<and>
     is_finite (focal_length a) \<and> is_finite (sensor_size a) \<and>
     (case target_distance a of Some d \<Rightarrow> is_finite d | None \<Rightarrow> True)"

section \<open>Auxiliary facts\<close>

lemma res_bind_Inr [simp]: "res_bind (Inr v) f = f v"
  by (simp add: res_bind_def)

lemma res_bind_Inl [simp]: "res_bind (Inl e) f = Inl e"
  by (simp add: res_bind_def)

lemma res_bind_eq_Inr: "res_bind m f = Inr r \<longleftrightarrow> (\<exists>v. m = Inr v \<and> f v = Inr r)"
  by (cases m) simp_all

lemma traverse_total: "(\<And>x. x \<in> set xs \<Longrightarrow> f x = Inr (g x)) \<Longrightarrow> traverse f xs = Inr (map g xs)"
  by (induction xs) simp_all

lemma traverse_Inr_length: "traverse f xs = Inr ys \<Longrightarrow> length ys = length xs"
  by (induction xs arbitrary: ys) (auto simp: res_bind_eq_Inr)

lemma traverse_Inr_nth: "traverse f xs = Inr ys \<Longrightarrow> i < length xs \<Longrightarrow> f (xs ! i) = Inr (ys ! i)"
proof (induction xs arbitrary: ys i)
  case Nil
  then show ?case by simp
next
  case (Cons x xs)
  from Cons.prems(1) obtain y ys' where y: "f x = Inr y" and ys': "traverse f xs = Inr ys'" and ys: "ys = y # ys'"
    by (auto simp: res_bind_eq_Inr)
  show ?case
  proof (cases i)
    case 0
    with y ys show ?thesis by simp
  next
    case (Suc j)
    with Cons.prems(2) have "j < length xs" by simp
    from Cons.IH [OF ys' this] Suc ys show ?thesis by simp
  qed
qed

subsection \<open>The samplers on finite arguments\<close>

lemma circular_position_Fin:
  "circular_position (Fin cx, Fin cy, Fin cz) (Fin r) N dir i =
     Inr (Fin (cx + r * cos (circular_angle N dir i)),
          Fin (cy + r * sin (circular_angle N dir i)), Fin cz)"
  by (simp add: circular_angle_def dir_mult_def Let_def)

lemma calculate_circular_path_Fin:
  "calculate_circular_path (Fin cx, Fin cy, Fin cz) (Fin r) N dir =
     Inr (map (\<lambda>i. (Fin (cx + r * cos (circular_angle N dir i)),
                     Fin (cy + r * sin (circular_angle N dir i)), Fin cz)) (range_py N))"
  unfolding calculate_circular_path_def
  by (rule traverse_total) (rule circular_position_Fin)

lemma circle_radius: "sqrt ((r * cos t)\<^sup>2 + (r * sin t)\<^sup>2) = \<bar>r\<bar>"
proof -
  have "(r * cos t)\<^sup>2 + (r * sin t)\<^sup>2 = r\<^sup>2 * ((cos t)\<^sup>2 + (sin t)\<^sup>2)"
    by (simp only: power_mult_distrib distrib_left)
  also have "\<dots> = r\<^sup>2" by simp
  finally show ?thesis by simp
qed

lemma spiral_position_Fin:
  "spiral_position (Fin cx, Fin cy, Fin cz) (Fin sr) (Fin er) (Fin sh) (Fin eh) (Fin loops) N dir i =
     Inr (Fin (cx + (sr + (er - sr) * spiral_t N i) * cos (2 * pi * loops * spiral_t N i * of_int (dir_mult dir))),
          Fin (cy + (sr + (er - sr) * spiral_t N i) * sin (2 * pi * loops * spiral_t N i * of_int (dir_mult dir))),
          Fin (cz + (sh + (eh - sh) * spiral_t N i)))"
  by (simp add: spiral_t_def Let_def py_sub_def)

lemma calculate_spiral_path_Fin:
  "calculate_spiral_path (Fin cx, Fin cy, Fin cz) (Fin sr) (Fin er) (Fin sh) (Fin eh) (Fin loops) N dir =
     Inr (map (\<lambda>i.
       (Fin (cx + (sr + (er - sr) * spiral_t N i) * cos (2 * pi * loops * spiral_t N i * of_int (dir_mult dir))),
        Fin (cy + (sr + (er - sr) * spiral_t N i) * sin (2 * pi * loops * spiral_t N i * of_int (dir_mult dir))),
        Fin (cz + (sh + (eh - sh) * spiral_t N i)))) (range_py N))"
  unfolding calculate_spiral_path_def
  by (rule traverse_total) (rule spiral_position_Fin)

subsection \<open>The distance-based target on finite arguments\<close>

lemma sum3_squares_pos:
  fixes a b c :: real
  assumes "a \<noteq> 0 \<or> b \<noteq> 0 \<or> c \<noteq> 0"
  shows "0 < a\<^sup>2 + b\<^sup>2 + c\<^sup>2"
proof -
  have "0 \<le> a\<^sup>2 + b\<^sup>2 + c\<^sup>2" by simp
  moreover have "a\<^sup>2 + b\<^sup>2 + c\<^sup>2 \<noteq> 0"
    using assms by (simp add: add_nonneg_eq_0_iff)
  ultimately show ?thesis by linarith
qed

lemma target_from_distance_Fin:
  assumes "(px, py, pz) \<noteq> (cx, cy, cz)"
  defines "L \<equiv> sqrt ((cx - px)\<^sup>2 + (cy - py)\<^sup>2 + (cz - pz)\<^sup>2)"
  shows "calculate_target_from_distance (Fin px, Fin py, Fin pz) (Fin cx, Fin cy, Fin cz) (Fin d) =
     Inr (Fin (px + (cx - px) / L * d), Fin (py + (cy - py) / L * d), Fin (pz + (cz - pz) / L * d))"
proof -
  have pos: "0 < (cx - px)\<^sup>2 + (cy - py)\<^sup>2 + (cz - pz)\<^sup>2"
    using assms(1) by (intro sum3_squares_pos) auto
  then have "L \<noteq> 0" by (simp add: L_def)
  with pos show ?thesis
    by (simp add: Let_def py_sub_def L_def power2_eq_square)
qed

lemma target_from_distance_degenerate:
  "calculate_target_from_distance (Fin cx, Fin cy, Fin cz) (Fin cx, Fin cy, Fin cz) d = Inr (Fin cx, Fin cy, Fin cz)"
  by (simp add: Let_def py_sub_def)

subsection \<open>Numerical bounds\<close>

lemma arctan_alternating_bounds:
  fixes x :: real
  assumes "0 < x" and "x \<le> 1"
  shows "(\<Sum>k<2 * n. (- 1) ^ k * (1 / real (k * 2 + 1) * x ^ (k * 2 + 1))) \<le> arctan x"
    and "arctan x \<le> (\<Sum>k<2 * n + 1. (- 1) ^ k * (1 / real (k * 2 + 1) * x ^ (k * 2 + 1)))"
proof -
  let ?a = "\<lambda>k. 1 / real (k * 2 + 1) * x ^ (k * 2 + 1)"
  have abs: "\<bar>x\<bar> \<le> 1" using assms by simp
  have "0 < ?a 0" using assms by simp
  with summable_Leibniz(2) [OF zeroseq_arctan_series [OF abs] monoseq_arctan_series [OF abs]]
  have "(\<Sum>k. (- 1) ^ k * ?a k) \<in> {\<Sum>k<2 * n. (- 1) ^ k * ?a k .. \<Sum>k<2 * n + 1. (- 1) ^ k * ?a k}"
    by blast
  then show "(\<Sum>k<2 * n. (- 1) ^ k * ?a k) \<le> arctan x"
    and "arctan x \<le> (\<Sum>k<2 * n + 1. (- 1) ^ k * ?a k)"
    by (simp_all add: arctan_series [OF abs])
qed

lemma arctan_16_35_bounds: "0.428775 < arctan (16 / 35 :: real)" "arctan (16 / 35 :: real) < 0.428779"
  using arctan_alternating_bounds [of "16 / 35" 3]
  by (simp_all add: eval_nat_numeral)

lemma arctan_fifth_bounds: "0.1973955 < arctan (1 / 5 :: real)" "arctan (1 / 5 :: real) < 0.1973956"
  using arctan_alternating_bounds [of "1 / 5" 2]
  by (simp_all add: eval_nat_numeral)

lemma arctan_239_bounds: "0.0041840760 < arctan (1 / 239 :: real)" "arctan (1 / 239 :: real) < 0.0041840761"
  using arctan_alternating_bounds [of "1 / 239" 2]
  by (simp_all add: eval_nat_numeral)

lemma pi_bounds: "3.14159 < pi" "pi < 3.1416"
proof -
  have "pi = 4 * (4 * arctan (1 / 5) - arctan (1 / 239))"
    using machin by simp
  with arctan_fifth_bounds arctan_239_bounds show "3.14159 < pi" "pi < 3.1416"
    by simp_all
qed

subsection \<open>The pose loop\<close>

lemma make_pose_eq:
  "make_pose a fov i pos tgt = (if fps a = 0 then Inl ZeroDivisionError else Inr (pose_dict a fov i pos tgt))"
  by (simp add: make_pose_def pose_dict_def Let_def)

lemma build_poses_Inr:
  "build_poses a fov n xs = Inr poses \<Longrightarrow>
     poses = map (\<lambda>(i, pos, tgt). pose_dict a fov i pos tgt) (filter (\<lambda>(i, pos, tgt). is_keyframe a n i) xs)"
proof (induction xs arbitrary: poses)
  case Nil
  then show ?case by simp
next
  case (Cons x xs)
  obtain i pos tgt where x: "x = (i, pos, tgt)" by (cases x)
  show ?case
  proof (cases "is_keyframe a n i")
    case True
    with Cons.prems x obtain rest where "build_poses a fov n xs = Inr rest"
      and "poses = pose_dict a fov i pos tgt # rest"
      by (auto simp: is_keyframe_def make_pose_eq res_bind_eq_Inr split: if_splits)
    with Cons.IH True x show ?thesis by simp
  next
    case False
    with Cons.prems x have "build_poses a fov n xs = Inr poses"
      by (auto simp: is_keyframe_def split: if_splits)
    with Cons.IH False x show ?thesis by simp
  qed
qed

lemma build_poses_total:
  assumes "keyframe_step a \<noteq> 0" and "fps a \<noteq> 0"
  shows "build_poses a fov n xs =
     Inr (map (\<lambda>(i, pos, tgt). pose_dict a fov i pos tgt) (filter (\<lambda>(i, pos, tgt). is_keyframe a n i) xs))"
proof (induction xs)
  case Nil
  show ?case by simp
next
  case (Cons x xs)
  obtain i pos tgt where x: "x = (i, pos, tgt)" by (cases x)
  show ?case
  proof (cases "is_keyframe a n i")
    case True
    then have "i mod keyframe_step a = 0 \<or> i = n - 1" by (simp add: is_keyframe_def)
    with assms True show ?thesis by (simp add: x Cons.IH make_pose_eq)
  next
    case False
    then have "\<not> (i mod keyframe_step a = 0 \<or> i = n - 1)" by (simp add: is_keyframe_def)
    with assms False show ?thesis by (simp add: x Cons.IH)
  qed
qed

lemma enumerate_zip:
  assumes "length ps = m" and "length ts = m"
  shows "enumerate_py (zip ps ts) = map (\<lambda>k. (int k, ps ! k, ts ! k)) [0..<m]"
  using assms by (auto simp: enumerate_py_def intro!: nth_equalityI)

lemma convert_and_round_eq:
  "convert_and_round a ps ts = (map (final_point a) ps, map (final_point a) ts)"
  by (simp add: convert_and_round_def convert_coordinates_def final_point_def)

lemma sample_positions_length:
  "sample_positions a = Inr ps \<Longrightarrow> length ps = nat (frames a)"
  by (auto simp: sample_positions_def calculate_circular_path_def calculate_spiral_path_def range_py_def
      dest!: traverse_Inr_length split: if_splits)

lemma target_list_length:
  "target_list a ps = Inr ts \<Longrightarrow> length ps = nat (frames a) \<Longrightarrow> length ts = nat (frames a)"
  by (auto simp: target_list_def dest!: traverse_Inr_length split: option.splits)

subsection \<open>The entry point as a whole\<close>

lemma range_py_eq: "range_py n = map int [0..<nat n]"
  by (auto simp: range_py_def intro!: nth_equalityI)

lemma keyframes_enumerate:
  assumes "length ps = nat N" and "length ts = nat N"
  shows "map (\<lambda>(i, pos, tgt). pose_dict a fov i pos tgt)
           (filter (\<lambda>(i, pos, tgt). is_keyframe a (int (nat N)) i) (enumerate_py (zip ps ts))) =
         map (\<lambda>k. pose_dict a fov (int k) (ps ! k) (ts ! k))
           (filter (\<lambda>k. is_keyframe a N (int k)) [0..<nat N])"
proof -
  have "filter (\<lambda>k. is_keyframe a (int (nat N)) (int k)) [0..<nat N] =
        filter (\<lambda>k. is_keyframe a N (int k)) [0..<nat N]"
    by (rule filter_cong) auto
  then show ?thesis
    by (simp add: enumerate_zip [OF assms] filter_map comp_def)
qed

lemma keyframes_final:
  assumes "length ps = nat (frames a)" and "length ts = nat (frames a)"
  shows "map (\<lambda>(i, pos, tgt). pose_dict a fov i pos tgt)
           (filter (\<lambda>(i, pos, tgt). is_keyframe a (int (length (map (final_point a) ps))) i)
              (enumerate_py (zip (map (final_point a) ps) (map (final_point a) ts)))) =
         emitted a fov ps ts"
proof -
  have "map (\<lambda>k. pose_dict a fov (int k) (map (final_point a) ps ! k) (map (final_point a) ts ! k))
           (filter (\<lambda>k. is_keyframe a (frames a) (int k)) [0..<nat (frames a)]) = emitted a fov ps ts"
    unfolding emitted_def using assms by (intro map_cong refl) auto
  with keyframes_enumerate [of "map (final_point a) ps" "frames a" "map (final_point a) ts" a fov] assms
  show ?thesis by simp
qed

lemma generate_Inr:
  assumes "generate_camera_animation a now = Inr r"
  shows "\<exists>ps ts fov. sample_positions a = Inr ps \<and> target_list a ps = Inr ts \<and>
           length ps = nat (frames a) \<and> length ts = nat (frames a) \<and>
           focal_length_to_fov (focal_length a) (sensor_size a) = Inr fov \<and>
           r = json_record a now (emitted a fov ps ts)"
proof -
  from assms obtain ps ts fov poses where ps: "sample_positions a = Inr ps"
    and ts: "target_list a ps = Inr ts"
    and fov: "focal_length_to_fov (focal_length a) (sensor_size a) = Inr fov"
    and poses: "build_poses a fov (int (length (map (final_point a) ps)))
                  (enumerate_py (zip (map (final_point a) ps) (map (final_point a) ts))) = Inr poses"
    and r: "r = json_record a now poses"
    by (auto simp: generate_camera_animation_def res_bind_eq_Inr convert_and_round_eq)
  have lp: "length ps = nat (frames a)" by (rule sample_positions_length [OF ps])
  have lt: "length ts = nat (frames a)" by (rule target_list_length [OF ts lp])
  from build_poses_Inr [OF poses] keyframes_final [OF lp lt]
  have "poses = emitted a fov ps ts" by simp
  with ps ts fov lp lt r show ?thesis by blast
qed

lemma generate_total:
  assumes ps: "sample_positions a = Inr ps" and ts: "target_list a ps = Inr ts"
    and fov: "focal_length_to_fov (focal_length a) (sensor_size a) = Inr fov"
    and "keyframe_step a \<noteq> 0" and "fps a \<noteq> 0"
  shows "generate_camera_animation a now = Inr (json_record a now (emitted a fov ps ts))"
proof -
  have lp: "length ps = nat (frames a)" by (rule sample_positions_length [OF ps])
  have lt: "length ts = nat (frames a)" by (rule target_list_length [OF ts lp])
  show ?thesis
    using ps ts fov build_poses_total [OF assms(4,5)] keyframes_final [OF lp lt]
    by (simp add: generate_camera_animation_def convert_and_round_eq)
qed

subsection \<open>Reading the output dictionary\<close>

lemma field_json_record_fixed:
  "field (json_record a now poses) ''camera_name'' = Some (JStr ''Generated_Camera'')"
  "field (json_record a now poses) ''frame_rate'' = Some (JInt (fps a))"
  "field (json_record a now poses) ''frame_start'' = Some (JInt 1)"
  "field (json_record a now poses) ''frame_end'' = Some (JInt (frames a))"
  "field (json_record a now poses) ''frame_step'' = Some (JInt 1)"
  "field (json_record a now poses) ''total_frames'' = Some (JInt (frames a))"
  "field (json_record a now poses) ''keyframes_generated'' = Some (JInt (int (length poses)))"
  "field (json_record a now poses) ''keyframe_step'' = Some (JInt (keyframe_step a))"
  "field (json_record a now poses) ''poses'' = Some (JList poses)"
  by (simp_all add: field_def json_record_def)

lemma field_json_record_target:
  "field (json_record a now poses) ''target_distance'' = map_option JFloat (target_distance a)"
  "field (json_record a now poses) ''target'' =
     (case target_distance a of Some d \<Rightarrow> None | None \<Rightarrow> map_option list_of_vec3 (target a))"
  by (auto simp: field_def json_record_def split: option.splits)

lemma pose_field_pose_dict:
  "pose_field (pose_dict a fov i pos tgt) ''frame'' = Some (JInt (i + 1))"
  "pose_field (pose_dict a fov i pos tgt) ''time'' = Some (JFloat (Fin (of_int (i + 1) / of_int (fps a))))"
  "pose_field (pose_dict a fov i pos tgt) ''position'' = Some (list_of_vec3 pos)"
  "pose_field (pose_dict a fov i pos tgt) ''target'' = Some (list_of_vec3 tgt)"
  "pose_field (pose_dict a fov i pos tgt) ''focal_length'' = Some (JFloat (focal_length a))"
  "pose_field (pose_dict a fov i pos tgt) ''fov'' = Some (JFloat (py_round fov 2))"
  by (simp_all add: pose_dict_def)

subsection \<open>When the entry point returns\<close>

lemma is_finite_iff: "is_finite x \<longleftrightarrow> (\<exists>r. x = Fin r)"
  by (cases x) (simp_all add: is_finite_def)

lemma finite_vec3_iff: "finite_vec3 v \<longleftrightarrow> (\<exists>x y z. v = (Fin x, Fin y, Fin z))"
  by (cases v) (auto simp: is_finite_iff)

lemma target_from_distance_finite:
  "\<exists>tx ty tz. calculate_target_from_distance (Fin px, Fin py, Fin pz) (Fin cx, Fin cy, Fin cz) (Fin d) =
     Inr (Fin tx, Fin ty, Fin tz)"
proof (cases "(px, py, pz) = (cx, cy, cz)")
  case True
  then show ?thesis using target_from_distance_degenerate [of cx cy cz "Fin d"] by auto
next
  case False
  from target_from_distance_Fin [OF this] show ?thesis by blast
qed

lemma traverse_succeeds:
  "(\<And>x. x \<in> set xs \<Longrightarrow> \<exists>y. f x = Inr y) \<Longrightarrow> \<exists>ys. traverse f xs = Inr ys"
proof (induction xs)
  case Nil
  show ?case by simp
next
  case (Cons x xs)
  from Cons.prems obtain y where "f x = Inr y" by auto
  moreover from Cons obtain ys where "traverse f xs = Inr ys" by auto
  ultimately show ?case by simp
qed

lemma sample_positions_finite:
  assumes "animation_type a = ''circular'' \<or> animation_type a = ''spiral''" and "finite_args a"
  shows "\<exists>ps. sample_positions a = Inr ps \<and> (\<forall>p \<in> set ps. finite_vec3 p)"
proof -
  from assms(2) obtain cx cy cz r sr er sh eh loops where
    "center a = (Fin cx, Fin cy, Fin cz)" "radius a = Fin r" "start_radius a = Fin sr"
    "end_radius a = Fin er" "start_height a = Fin sh" "end_height a = Fin eh" "spiral_loops a = Fin loops"
    unfolding finite_args_def is_finite_iff finite_vec3_iff by blast
  with assms(1) show ?thesis
    by (auto simp: sample_positions_def calculate_circular_path_Fin calculate_spiral_path_Fin is_finite_def)
qed

lemma target_list_finite:
  assumes "finite_args a" and "\<forall>p \<in> set ps. finite_vec3 p"
  shows "\<exists>ts. target_list a ps = Inr ts"
proof (cases "target_distance a")
  case None
  then show ?thesis by (simp add: target_list_def split: option.splits)
next
  case (Some d)
  with assms(1) obtain cx cy cz d' where c: "center a = (Fin cx, Fin cy, Fin cz)" and d: "d = Fin d'"
    unfolding finite_args_def is_finite_iff finite_vec3_iff by auto
  have "\<exists>t. calculate_target_from_distance p (center a) d = Inr t" if "p \<in> set ps" for p
  proof -
    from assms(2) that obtain px py pz where "p = (Fin px, Fin py, Fin pz)"
      unfolding finite_vec3_iff by blast
    with c d target_from_distance_finite [of px py pz cx cy cz d'] show ?thesis by auto
  qed
  then have "\<exists>ts. traverse (\<lambda>pos. calculate_target_from_distance pos (center a) d) ps = Inr ts"
    by (rule traverse_succeeds)
  with Some show ?thesis by (simp add: target_list_def)
qed

lemma focal_length_to_fov_Fin:
  "f \<noteq> 0 \<Longrightarrow> focal_length_to_fov (Fin f) (Fin s) = Inr (Fin (2 * arctan (s / (2 * f)) * (180 / pi)))"
  by (simp add: focal_length_to_fov_def math_degrees_def)

lemma generate_succeeds:
  assumes "animation_type a = ''circular'' \<or> animation_type a = ''spiral''"
    and "finite_args a" and "focal_length a \<noteq> Fin 0" and "keyframe_step a \<noteq> 0" and "fps a \<noteq> 0"
  shows "\<exists>r. generate_camera_animation a now = Inr r"
proof -
  from sample_positions_finite [OF assms(1,2)] obtain ps
    where ps: "sample_positions a = Inr ps" and fin: "\<forall>p \<in> set ps. finite_vec3 p" by blast
  from target_list_finite [OF assms(2) fin] obtain ts where ts: "target_list a ps = Inr ts" by blast
  from assms(2,3) obtain f s where "focal_length a = Fin f" "sensor_size a = Fin s" "f \<noteq> 0"
    unfolding finite_args_def is_finite_iff by auto
  then have fov: "\<exists>fov. focal_length_to_fov (focal_length a) (sensor_size a) = Inr fov"
    by (simp add: focal_length_to_fov_Fin)
  then obtain fov where "focal_length_to_fov (focal_length a) (sensor_size a) = Inr fov" ..
  from generate_total [OF ps ts this assms(4,5)] show ?thesis by blast
qed

lemma unknown_animation_type:
  assumes "animation_type a \<noteq> ''circular''" and "animation_type a \<noteq> ''spiral''"
  shows "generate_camera_animation a now = Inl (ValueError (''Unknown animation type: '' @ animation_type a))"
  using assms by (simp add: generate_camera_animation_def sample_positions_def)

subsection \<open>The frames the pose loop keeps\<close>

lemma emitted_frames:
  "map (\<lambda>p. pose_field p ''frame'') (emitted a fov ps ts) =
     map (\<lambda>i. Some (JInt (i + 1)))
       (filter (\<lambda>i. i mod keyframe_step a = 0 \<or> i = frames a - 1) (range_py (frames a)))"
  by (simp add: emitted_def range_py_eq filter_map comp_def pose_field_pose_dict is_keyframe_def)

lemma default_args_succeeds:
  assumes "K \<noteq> 0"
  shows "\<exists>r. generate_camera_animation (default_args\<lparr>frames := N, keyframe_step := K\<rparr>) now = Inr r"
  using assms by (intro generate_succeeds) (simp_all add: default_args_def finite_args_def is_finite_def)

subsection \<open>The poses of a returned record\<close>

lemma emitted_pose:
  assumes "p \<in> set (emitted a fov ps ts)"
  shows "\<exists>k < nat (frames a). is_keyframe a (frames a) (int k) \<and>
           p = pose_dict a fov (int k) (final_point a (ps ! k)) (final_point a (ts ! k))"
  using assms by (auto simp: emitted_def)

subsection \<open>Rounding and the field of view on concrete values\<close>

lemma round_half_even_of_int [simp]: "round_half_even (of_int n) = n"
  by (simp add: round_half_even_def)

lemma round_half_even_between:
  assumes "of_int n \<le> x" and "x < of_int n + 1 / 2"
  shows "round_half_even x = n"
proof -
  have "\<lfloor>x\<rfloor> = n" using assms by linarith
  with assms show ?thesis by (simp add: round_half_even_def)
qed


lemma fov_35_32_bounds:
  "49.13 < 2 * arctan (32 / (2 * 35)) * (180 / pi)" "2 * arctan (32 / (2 * 35)) * (180 / pi) < 49.135"
proof -
  have eq: "2 * arctan (32 / (2 * 35)) * (180 / pi) = 360 * arctan (16 / 35) / pi"
    by simp
  have "49.13 * pi < 360 * arctan (16 / 35)"
    using pi_bounds(2) arctan_16_35_bounds(1) by simp
  then show "49.13 < 2 * arctan (32 / (2 * 35)) * (180 / pi)"
    unfolding eq by (simp add: pos_less_divide_eq)
  have "360 * arctan (16 / 35) < 49.135 * pi"
    using pi_bounds(1) arctan_16_35_bounds(2) by simp
  then show "2 * arctan (32 / (2 * 35)) * (180 / pi) < 49.135"
    unfolding eq by (simp add: pos_divide_less_eq)
qed

lemma fov_35_32_rounded:
  "py_round (Fin (2 * arctan (32 / (2 * 35)) * (180 / pi))) 2 = Fin 49.13"
proof -
  let ?v = "2 * arctan (32 / (2 * 35)) * (180 / pi)"
  have "round_half_even (?v * 100) = 4913"
    using fov_35_32_bounds by (intro round_half_even_between) simp_all
  then have "round_half_even (?v * 10 powi 2) = 4913" by simp
  then show ?thesis by simp
qed

subsection \<open>Evaluation on numerals\<close>

lemma fov_default: "focal_length_to_fov (Fin 35) (Fin 32) = Inr (Fin (2 * arctan (32 / (2 * 35)) * (180 / pi)))"
  by (rule focal_length_to_fov_Fin) simp

lemma round_half_even_numeral [simp]:
  "round_half_even (numeral n) = numeral n"
  "round_half_even (- numeral n) = - numeral n"
  "round_half_even 0 = 0"
  "round_half_even 1 = 1"
  using round_half_even_of_int [of "numeral n"] round_half_even_of_int [of "- numeral n"]
    round_half_even_of_int [of 0] round_half_even_of_int [of 1]
  by simp_all

lemma default_positions_1:
  "sample_positions (default_args\<lparr>target := tg, target_distance := td, frames := 1\<rparr>) = Inr [(Fin 10, Fin 0, Fin 0)]"
  by (simp add: sample_positions_def default_args_def calculate_circular_path_Fin range_py_def circular_angle_def)

lemma target_example:
  "calculate_target_from_distance (Fin 10, Fin 0, Fin 0) (Fin 0, Fin 0, Fin 0) (Fin 5) = Inr (Fin 5, Fin 0, Fin 0)"
proof -
  have "(0 - 10)\<^sup>2 + (0 - 0)\<^sup>2 + (0 - 0)\<^sup>2 = (10::real)\<^sup>2" by simp
  then have "sqrt ((0 - 10)\<^sup>2 + (0 - 0)\<^sup>2 + (0 - 0)\<^sup>2) = (10::real)"
    by (simp only: real_sqrt_abs)
  with target_from_distance_Fin [of 10 0 0 0 0 0 5] show ?thesis by simp
qed

subsection \<open>Frame names\<close>

lemma digits_of_1: "digits_of (Suc 0) = ''1''"
  by (subst digits_of.simps) simp

lemma format_04d_1: "format_04d 1 = ''0001''"
  by (simp add: format_04d_def zero_pad_def digits_of_1 eval_nat_numeral)

lemma pose_dict_first:
  "pose_dict a fov 0 pos tgt =
     JDict
       [(''frame'', JInt 1),
        (''time'', JFloat (Fin (1 / of_int (fps a)))),
        (''position'', list_of_vec3 pos),
        (''target'', list_of_vec3 tgt),
        (''focal_length'', JFloat (focal_length a)),
        (''fov'', JFloat (py_round fov 2)),
        (''name'', JStr ''camera_frame_0001'')]"
  by (simp add: pose_dict_def format_04d_1)

section \<open>Configuration errors (claim C1)\<close>

text \<open>
  Claim C1 says that a frame count of 0 and a radius of 0 are configuration errors that
  abort the generation with no record. The entry point checks the animation type only
  (\<open>unknown_animation_type\<close>: an unknown type raises ValueError before any position is
  sampled). With the defaults of the signature and \<open>frames = 0\<close> it returns a record with
  no pose, and with \<open>radius = 0\<close> and one frame it returns a record whose pose sits on the
  center.
\<close>

theorem zero_frames_and_zero_radius_return_records:
  "generate_camera_animation (default_args\<lparr>frames := 0\<rparr>) ''2026-01-01T00:00:00'' =
     Inr [(''camera_name'', JStr ''Generated_Camera''),
          (''frame_rate'', JInt 24),
          (''frame_start'', JInt 1),
          (''frame_end'', JInt 0),
          (''frame_step'', JInt 1),
          (''coordinate_system'', JStr ''SUPERSPLAT''),
          (''total_frames'', JInt 0),
          (''keyframes_generated'', JInt 0),
          (''keyframe_step'', JInt 1),
          (''animation_type'', JStr ''circular''),
          (''direction'', JStr ''clockwise''),
          (''export_timestamp'', JStr ''2026-01-01T00:00:00''),
          (''coordinate_precision'', JInt 6),
          (''center'', JList [JFloat (Fin 0), JFloat (Fin 0), JFloat (Fin 0)]),
          (''poses'', JList []),
          (''radius'', JFloat (Fin 10)),
          (''generator'', JStr ''Standalone Camera JSON Generator v1.0'')] \<and>
   generate_camera_animation (default_args\<lparr>radius := Fin 0, frames := 1\<rparr>) ''2026-01-01T00:00:00'' =
     Inr [(''camera_name'', JStr ''Generated_Camera''),
          (''frame_rate'', JInt 24),
          (''frame_start'', JInt 1),
          (''frame_end'', JInt 1),
          (''frame_step'', JInt 1),
          (''coordinate_system'', JStr ''SUPERSPLAT''),
          (''total_frames'', JInt 1),
          (''keyframes_generated'', JInt 1),
          (''keyframe_step'', JInt 1),
          (''animation_type'', JStr ''circular''),
          (''direction'', JStr ''clockwise''),
          (''export_timestamp'', JStr ''2026-01-01T00:00:00''),
          (''coordinate_precision'', JInt 6),
          (''center'', JList [JFloat (Fin 0), JFloat (Fin 0), JFloat (Fin 0)]),
          (''poses'', JList
             [JDict
                [(''frame'', JInt 1),
                 (''time'', JFloat (Fin (1 / 24))),
                 (''position'', JList [JFloat (Fin 0), JFloat (Fin 0), JFloat (Fin 0)]),
                 (''target'', JList [JFloat (Fin 0), JFloat (Fin 0), JFloat (Fin 0)]),
                 (''focal_length'', JFloat (Fin 35)),
                 (''fov'', JFloat (Fin 49.13)),
                 (''name'', JStr ''camera_frame_0001'')]]),
          (''radius'', JFloat (Fin 0)),
          (''generator'', JStr ''Standalone Camera JSON Generator v1.0'')]"
proof (rule conjI)
  let ?a = "default_args\<lparr>frames := 0\<rparr>"
  let ?fov = "Fin (2 * arctan (32 / (2 * 35)) * (180 / pi))"
  have ps: "sample_positions ?a = Inr []"
    by (simp add: sample_positions_def default_args_def calculate_circular_path_Fin range_py_def)
  have ts: "target_list ?a [] = Inr []"
    by (simp add: target_list_def default_args_def)
  have fov: "focal_length_to_fov (focal_length ?a) (sensor_size ?a) = Inr ?fov"
    by (simp add: default_args_def fov_default)
  have "generate_camera_animation ?a ''2026-01-01T00:00:00'' =
      Inr (json_record ?a ''2026-01-01T00:00:00'' (emitted ?a ?fov [] []))"
    by (rule generate_total [OF ps ts fov]) (simp_all add: default_args_def)
  moreover have "emitted ?a ?fov [] [] = []"
    by (simp add: emitted_def default_args_def)
  ultimately show "generate_camera_animation ?a ''2026-01-01T00:00:00'' =
     Inr [(''camera_name'', JStr ''Generated_Camera''),
          (''frame_rate'', JInt 24),
          (''frame_start'', JInt 1),
          (''frame_end'', JInt 0),
          (''frame_step'', JInt 1),
          (''coordinate_system'', JStr ''SUPERSPLAT''),
          (''total_frames'', JInt 0),
          (''keyframes_generated'', JInt 0),
          (''keyframe_step'', JInt 1),
          (''animation_type'', JStr ''circular''),
          (''direction'', JStr ''clockwise''),
          (''export_timestamp'', JStr ''2026-01-01T00:00:00''),
          (''coordinate_precision'', JInt 6),
          (''center'', JList [JFloat (Fin 0), JFloat (Fin 0), JFloat (Fin 0)]),
          (''poses'', JList []),
          (''radius'', JFloat (Fin 10)),
          (''generator'', JStr ''Standalone Camera JSON Generator v1.0'')]"
    by (simp add: json_record_def default_args_def)
next
  let ?a = "default_args\<lparr>radius := Fin 0, frames := 1\<rparr>"
  let ?fov = "Fin (2 * arctan (32 / (2 * 35)) * (180 / pi))"
  have ps: "sample_positions ?a = Inr [(Fin 0, Fin 0, Fin 0)]"
    by (simp add: sample_positions_def default_args_def calculate_circular_path_Fin range_py_def)
  have ts: "target_list ?a [(Fin 0, Fin 0, Fin 0)] = Inr [(Fin 0, Fin 0, Fin 0)]"
    by (simp add: target_list_def default_args_def)
  have fov: "focal_length_to_fov (focal_length ?a) (sensor_size ?a) = Inr ?fov"
    by (simp add: default_args_def fov_default)
  have "generate_camera_animation ?a ''2026-01-01T00:00:00'' =
      Inr (json_record ?a ''2026-01-01T00:00:00'' (emitted ?a ?fov [(Fin 0, Fin 0, Fin 0)] [(Fin 0, Fin 0, Fin 0)]))"
    by (rule generate_total [OF ps ts fov]) (simp_all add: default_args_def)
  moreover have "emitted ?a ?fov [(Fin 0, Fin 0, Fin 0)] [(Fin 0, Fin 0, Fin 0)] =
      [pose_dict ?a ?fov 0 (Fin 0, Fin 0, Fin 0) (Fin 0, Fin 0, Fin 0)]"
    by (simp add: emitted_def is_keyframe_def final_point_def default_args_def)
  moreover have "pose_dict ?a ?fov 0 (Fin 0, Fin 0, Fin 0) (Fin 0, Fin 0, Fin 0) =
      JDict
        [(''frame'', JInt 1),
         (''time'', JFloat (Fin (1 / 24))),
         (''position'', JList [JFloat (Fin 0), JFloat (Fin 0), JFloat (Fin 0)]),
         (''target'', JList [JFloat (Fin 0), JFloat (Fin 0), JFloat (Fin 0)]),
         (''focal_length'', JFloat (Fin 35)),
         (''fov'', JFloat (Fin 49.13)),
         (''name'', JStr ''camera_frame_0001'')]"
    by (simp only: pose_dict_first fov_35_32_rounded) (simp add: default_args_def)
  ultimately show "generate_camera_animation ?a ''2026-01-01T00:00:00'' =
     Inr [(''camera_name'', JStr ''Generated_Camera''),
          (''frame_rate'', JInt 24),
          (''frame_start'', JInt 1),
          (''frame_end'', JInt 1),
          (''frame_step'', JInt 1),
          (''coordinate_system'', JStr ''SUPERSPLAT''),
          (''total_frames'', JInt 1),
          (''keyframes_generated'', JInt 1),
          (''keyframe_step'', JInt 1),
          (''animation_type'', JStr ''circular''),
          (''direction'', JStr ''clockwise''),
          (''export_timestamp'', JStr ''2026-01-01T00:00:00''),
          (''coordinate_precision'', JInt 6),
          (''center'', JList [JFloat (Fin 0), JFloat (Fin 0), JFloat (Fin 0)]),
          (''poses'', JList
             [JDict
                [(''frame'', JInt 1),
                 (''time'', JFloat (Fin (1 / 24))),
                 (''position'', JList [JFloat (Fin 0), JFloat (Fin 0), JFloat (Fin 0)]),
                 (''target'', JList [JFloat (Fin 0), JFloat (Fin 0), JFloat (Fin 0)]),
                 (''focal_length'', JFloat (Fin 35)),
                 (''fov'', JFloat (Fin 49.13)),
                 (''name'', JStr ''camera_frame_0001'')]]),
          (''radius'', JFloat (Fin 0)),
          (''generator'', JStr ''Standalone Camera JSON Generator v1.0'')]"
    by (simp add: json_record_def default_args_def)
qed

section \<open>Non-finite coordinates (claim C2)\<close>




section \<open>The circular path (claim C3)\<close>

text \<open>
  Claim C3. For a finite center \<open>(cx, cy, cz)\<close>, a finite radius \<open>r\<close>, any frame count \<open>N\<close> and
  any direction, \<open>calculate_circular_path\<close> returns \<open>N\<close> positions (none when \<open>N \<le> 0\<close>), and
  position \<open>i\<close> is \<open>(cx + r cos \<theta>, cy + r sin \<theta>, cz)\<close> with
  \<open>\<theta> = 2 \<pi> i / N \<cdot> d\<close>, where \<open>d = -1\<close> for the direction \<open>clockwise\<close> and \<open>1\<close> for any other.
  Hence its distance from the center in the plane of the first two coordinates is \<open>\<bar>r\<bar>\<close>,
  which is \<open>r\<close> for \<open>r \<ge> 0\<close>, and its third coordinate is that of the center.
\<close>

theorem circular_path_on_circle:
  "\<exists>ps. calculate_circular_path (Fin cx, Fin cy, Fin cz) (Fin r) N dir = Inr ps \<and>
     length ps = nat N \<and>
     (\<forall>i < nat N.
        let th = 2 * pi * real i / real_of_int N * (if dir = ''clockwise'' then - 1 else 1);
            x = cx + r * cos th;
            y = cy + r * sin th
        in ps ! i = (Fin x, Fin y, Fin cz) \<and>
           sqrt ((x - cx)\<^sup>2 + (y - cy)\<^sup>2) = \<bar>r\<bar> \<and>
           (0 \<le> r \<longrightarrow> sqrt ((x - cx)\<^sup>2 + (y - cy)\<^sup>2) = r))"
proof -
  let ?ps = "map (\<lambda>i. (Fin (cx + r * cos (circular_angle N dir i)),
                     Fin (cy + r * sin (circular_angle N dir i)), Fin cz)) (range_py N)"
  have run: "calculate_circular_path (Fin cx, Fin cy, Fin cz) (Fin r) N dir = Inr ?ps"
    by (rule calculate_circular_path_Fin)
  have len: "length ?ps = nat N" by (simp add: range_py_def)
  have each: "let th = 2 * pi * real i / real_of_int N * (if dir = ''clockwise'' then - 1 else 1);
            x = cx + r * cos th;
            y = cy + r * sin th
        in ?ps ! i = (Fin x, Fin y, Fin cz) \<and>
           sqrt ((x - cx)\<^sup>2 + (y - cy)\<^sup>2) = \<bar>r\<bar> \<and>
           (0 \<le> r \<longrightarrow> sqrt ((x - cx)\<^sup>2 + (y - cy)\<^sup>2) = r)" if "i < nat N" for i
    using that by (simp add: range_py_def circular_angle_def circle_radius Let_def)
  show ?thesis
    by (intro exI [of _ ?ps] conjI allI impI run len each) assumption
qed

theorem circular_path_on_circle_witness:
  "\<exists>ps. calculate_circular_path (Fin 1, Fin 2, Fin 3) (Fin 5) 2 ''clockwise'' = Inr ps \<and>
     length ps = 2 \<and> (1::nat) < nat 2 \<and> ps ! 1 = (Fin (- 4), Fin 2, Fin 3) \<and>
     (0::real) \<le> 5 \<and> sqrt ((- 4 - 1)\<^sup>2 + (2 - 2)\<^sup>2) = (5::real)"
proof -
  from circular_path_on_circle [of 1 2 3 5 2 "''clockwise''"]
  obtain ps where run: "calculate_circular_path (Fin 1, Fin 2, Fin 3) (Fin 5) 2 ''clockwise'' = Inr ps"
    and len: "length ps = nat 2"
    and each: "\<forall>i < nat 2.
        let th = 2 * pi * real i / real_of_int 2 * (if ''clockwise'' = ''clockwise'' then - 1 else 1);
            x = 1 + 5 * cos th;
            y = 2 + 5 * sin th
        in ps ! i = (Fin x, Fin y, Fin 3) \<and>
           sqrt ((x - 1)\<^sup>2 + (y - 2)\<^sup>2) = \<bar>5\<bar> \<and>
           ((0::real) \<le> 5 \<longrightarrow> sqrt ((x - 1)\<^sup>2 + (y - 2)\<^sup>2) = 5)"
    by blast
  from each have "ps ! 1 = (Fin (- 4), Fin 2, Fin 3) \<and> sqrt ((- 4 - 1)\<^sup>2 + (2 - 2)\<^sup>2) = (5::real)"
    by (simp add: Let_def)
  with run len show ?thesis by auto
qed

section \<open>The spiral path (claim C4)\<close>

text \<open>
  Claim C4. For finite arguments and any frame count \<open>N\<close>, \<open>calculate_spiral_path\<close> returns
  \<open>N\<close> positions (none when \<open>N \<le> 0\<close>). Frame \<open>i\<close> has the normalized time \<open>t = i / (N - 1)\<close>
  when \<open>N > 1\<close> and \<open>t = 0\<close> otherwise, the angle \<open>\<theta> = 2 \<pi> \<cdot> loops \<cdot> t \<cdot> d\<close>, the radius
  \<open>sr + (er - sr) t\<close> and the height \<open>sh + (eh - sh) t\<close>. So frame \<open>0\<close> is offset from the
  center by the start radius (at angle 0) and the start height; for \<open>N > 1\<close> the last frame
  is offset by the end radius (at the full angle) and the end height; and \<open>N = 1\<close> gives the
  single sample at \<open>t = 0\<close>.
\<close>

theorem spiral_path_samples:
  "\<exists>ps. calculate_spiral_path (Fin cx, Fin cy, Fin cz) (Fin sr) (Fin er) (Fin sh) (Fin eh) (Fin loops) N dir = Inr ps \<and>
     length ps = nat N \<and>
     (\<forall>i < nat N.
        let t = (if N > 1 then real i / real_of_int (N - 1) else 0);
            th = 2 * pi * loops * t * (if dir = ''clockwise'' then - 1 else 1)
        in ps ! i = (Fin (cx + (sr + (er - sr) * t) * cos th),
                     Fin (cy + (sr + (er - sr) * t) * sin th),
                     Fin (cz + (sh + (eh - sh) * t)))) \<and>
     (1 \<le> N \<longrightarrow> ps ! 0 = (Fin (cx + sr), Fin cy, Fin (cz + sh))) \<and>
     (1 < N \<longrightarrow> ps ! (nat N - 1) =
        (Fin (cx + er * cos (2 * pi * loops * (if dir = ''clockwise'' then - 1 else 1))),
         Fin (cy + er * sin (2 * pi * loops * (if dir = ''clockwise'' then - 1 else 1))),
         Fin (cz + eh))) \<and>
     (N = 1 \<longrightarrow> ps = [(Fin (cx + sr), Fin cy, Fin (cz + sh))])"
proof -
  let ?f = "\<lambda>i.
       (Fin (cx + (sr + (er - sr) * spiral_t N i) * cos (2 * pi * loops * spiral_t N i * of_int (dir_mult dir))),
        Fin (cy + (sr + (er - sr) * spiral_t N i) * sin (2 * pi * loops * spiral_t N i * of_int (dir_mult dir))),
        Fin (cz + (sh + (eh - sh) * spiral_t N i)))"
  let ?ps = "map ?f (range_py N)"
  have run: "calculate_spiral_path (Fin cx, Fin cy, Fin cz) (Fin sr) (Fin er) (Fin sh) (Fin eh) (Fin loops) N dir = Inr ?ps"
    by (rule calculate_spiral_path_Fin)
  have len: "length ?ps = nat N" by (simp add: range_py_def)
  have nth: "?ps ! i = ?f (int i)" if "i < nat N" for i
    using that by (simp add: range_py_def)
  have t0: "spiral_t N 0 = 0" by (simp add: spiral_t_def)
  have t1: "spiral_t N (int (nat N - 1)) = 1" if "1 < N"
    using that by (simp add: spiral_t_def)
  have first: "?ps ! 0 = (Fin (cx + sr), Fin cy, Fin (cz + sh))" if "1 \<le> N"
    using that nth [of 0] by (simp add: t0)
  have last: "?ps ! (nat N - 1) =
        (Fin (cx + er * cos (2 * pi * loops * (if dir = ''clockwise'' then - 1 else 1))),
         Fin (cy + er * sin (2 * pi * loops * (if dir = ''clockwise'' then - 1 else 1))),
         Fin (cz + eh))" if "1 < N"
    using that nth [of "nat N - 1"] t1 [OF that] by (simp add: dir_mult_def)
  have single: "?ps = [(Fin (cx + sr), Fin cy, Fin (cz + sh))]" if "N = 1"
    using that by (simp add: range_py_def spiral_t_def)
  have each: "let t = (if N > 1 then real i / real_of_int (N - 1) else 0);
            th = 2 * pi * loops * t * (if dir = ''clockwise'' then - 1 else 1)
        in ?ps ! i = (Fin (cx + (sr + (er - sr) * t) * cos th),
                     Fin (cy + (sr + (er - sr) * t) * sin th),
                     Fin (cz + (sh + (eh - sh) * t)))" if "i < nat N" for i
    using nth [OF that] by (simp add: spiral_t_def dir_mult_def Let_def)
  show ?thesis
    by (intro exI [of _ ?ps] conjI allI impI run len each first last single) assumption+
qed

theorem spiral_path_samples_witness:
  "(\<exists>ps. calculate_spiral_path (Fin 0, Fin 0, Fin 0) (Fin 5) (Fin 15) (Fin 0) (Fin 10) (Fin 1) 3 ''clockwise'' = Inr ps \<and>
      length ps = 3 \<and> (1::nat) < nat 3 \<and> (1::int) \<le> 3 \<and> (1::int) < 3 \<and>
      ps ! 0 = (Fin 5, Fin 0, Fin 0) \<and> ps ! 1 = (Fin (- 10), Fin 0, Fin 5) \<and>
      ps ! 2 = (Fin 15, Fin 0, Fin 10)) \<and>
   calculate_spiral_path (Fin 0, Fin 0, Fin 0) (Fin 5) (Fin 15) (Fin 0) (Fin 10) (Fin 1) 1 ''clockwise'' =
     Inr [(Fin 5, Fin 0, Fin 0)]"
proof -
  from spiral_path_samples [of 0 0 0 5 15 0 10 1 3 "''clockwise''"]
  obtain ps where run: "calculate_spiral_path (Fin 0, Fin 0, Fin 0) (Fin 5) (Fin 15) (Fin 0) (Fin 10) (Fin 1) 3 ''clockwise'' = Inr ps"
    and len: "length ps = nat 3"
    and each: "\<forall>i < nat 3.
        let t = (if (3::int) > 1 then real i / real_of_int (3 - 1) else 0);
            th = 2 * pi * 1 * t * (if ''clockwise'' = ''clockwise'' then - 1 else 1)
        in ps ! i = (Fin (0 + (5 + (15 - 5) * t) * cos th),
                     Fin (0 + (5 + (15 - 5) * t) * sin th),
                     Fin (0 + (0 + (10 - 0) * t)))"
    and first: "(1::int) \<le> 3 \<longrightarrow> ps ! 0 = (Fin (0 + 5), Fin 0, Fin (0 + 0))"
    and last: "(1::int) < 3 \<longrightarrow> ps ! (nat 3 - 1) =
        (Fin (0 + 15 * cos (2 * pi * 1 * (if ''clockwise'' = ''clockwise'' then - 1 else 1))),
         Fin (0 + 15 * sin (2 * pi * 1 * (if ''clockwise'' = ''clockwise'' then - 1 else 1))),
         Fin (0 + 10))"
    by blast
  from each have "ps ! 1 = (Fin (- 10), Fin 0, Fin 5)"
    by (simp add: Let_def)
  moreover from first have "ps ! 0 = (Fin 5, Fin 0, Fin 0)" by simp
  moreover from last have "ps ! 2 = (Fin 15, Fin 0, Fin 10)"
    by (simp add: numeral_2_eq_2 [symmetric])
  moreover from spiral_path_samples [of 0 0 0 5 15 0 10 1 1 "''clockwise''"]
  have "calculate_spiral_path (Fin 0, Fin 0, Fin 0) (Fin 5) (Fin 15) (Fin 0) (Fin 10) (Fin 1) 1 ''clockwise'' =
     Inr [(Fin 5, Fin 0, Fin 0)]" by auto
  ultimately show ?thesis using run len by auto
qed

section \<open>The distance-based target (claim C5)\<close>



section \<open>Keyframe filtering (claim C6)\<close>

text \<open>
  Claim C6. Whenever generation returns a record, the frame numbers of its poses, in order,
  are \<open>i + 1\<close> for exactly the indices \<open>i\<close> of \<open>0, \<dots>, N - 1\<close> with
  \<open>i mod keyframe_step = 0\<close> or \<open>i = N - 1\<close>, where \<open>N\<close> is the frame count. So a pose with
  frame number \<open>i + 1\<close> is emitted if and only if \<open>i\<close> is such an index, and a step of 1
  emits every frame. (Generation returns a record for the default arguments with any frame
  count and any step other than zero, by \<open>default_args_succeeds\<close>; with 25 frames and a step
  of 10 the indices are 0, 10, 20 and 24.)
\<close>

theorem keyframe_filtering:
  assumes "generate_camera_animation a now = Inr r"
  shows "\<exists>poses. field r ''poses'' = Some (JList poses) \<and>
     map (\<lambda>p. pose_field p ''frame'') poses =
       map (\<lambda>i. Some (JInt (i + 1)))
         (filter (\<lambda>i. i mod keyframe_step a = 0 \<or> i = frames a - 1) (range_py (frames a))) \<and>
     (\<forall>i. (\<exists>p \<in> set poses. pose_field p ''frame'' = Some (JInt (i + 1))) \<longleftrightarrow>
          0 \<le> i \<and> i < frames a \<and> (i mod keyframe_step a = 0 \<or> i = frames a - 1)) \<and>
     (keyframe_step a = 1 \<longrightarrow>
        map (\<lambda>p. pose_field p ''frame'') poses = map (\<lambda>i. Some (JInt (i + 1))) (range_py (frames a)))"
proof -
  from generate_Inr [OF assms] obtain ps ts fov
    where r: "r = json_record a now (emitted a fov ps ts)" by blast
  let ?poses = "emitted a fov ps ts"
  let ?keep = "filter (\<lambda>i. i mod keyframe_step a = 0 \<or> i = frames a - 1) (range_py (frames a))"
  have fld: "field r ''poses'' = Some (JList ?poses)"
    by (simp add: r field_json_record_fixed)
  have frs: "map (\<lambda>p. pose_field p ''frame'') ?poses = map (\<lambda>i. Some (JInt (i + 1))) ?keep"
    by (rule emitted_frames)
  have iff: "(\<exists>p \<in> set ?poses. pose_field p ''frame'' = Some (JInt (i + 1))) \<longleftrightarrow>
          0 \<le> i \<and> i < frames a \<and> (i mod keyframe_step a = 0 \<or> i = frames a - 1)" for i
  proof -
    have "(\<exists>p \<in> set ?poses. pose_field p ''frame'' = Some (JInt (i + 1))) \<longleftrightarrow>
          Some (JInt (i + 1)) \<in> set (map (\<lambda>p. pose_field p ''frame'') ?poses)"
      by force
    also have "\<dots> \<longleftrightarrow> Some (JInt (i + 1)) \<in> set (map (\<lambda>i. Some (JInt (i + 1))) ?keep)"
      by (simp only: frs)
    also have "\<dots> \<longleftrightarrow> i \<in> set ?keep" by (auto simp: image_iff)
    also have "\<dots> \<longleftrightarrow> 0 \<le> i \<and> i < frames a \<and> (i mod keyframe_step a = 0 \<or> i = frames a - 1)"
      by (auto simp: range_py_def)
    finally show ?thesis .
  qed
  have one: "map (\<lambda>p. pose_field p ''frame'') ?poses = map (\<lambda>i. Some (JInt (i + 1))) (range_py (frames a))"
    if "keyframe_step a = 1"
    using that by (simp add: frs)
  from fld frs iff one show ?thesis by blast
qed

theorem keyframe_filtering_witness:
  "(\<exists>r poses. generate_camera_animation (default_args\<lparr>frames := 25, keyframe_step := 10\<rparr>) ''now'' = Inr r \<and>
      field r ''poses'' = Some (JList poses) \<and>
      map (\<lambda>p. pose_field p ''frame'') poses = [Some (JInt 1), Some (JInt 11), Some (JInt 21), Some (JInt 25)]) \<and>
   (\<exists>r poses. generate_camera_animation (default_args\<lparr>frames := 3, keyframe_step := 1\<rparr>) ''now'' = Inr r \<and>
      field r ''poses'' = Some (JList poses) \<and>
      map (\<lambda>p. pose_field p ''frame'') poses = [Some (JInt 1), Some (JInt 2), Some (JInt 3)])"
proof (rule conjI)
  let ?a = "default_args\<lparr>frames := 25, keyframe_step := 10\<rparr>"
  from default_args_succeeds [of 10 25 "''now''"] obtain r
    where r: "generate_camera_animation ?a ''now'' = Inr r" by auto
  from keyframe_filtering [OF r] obtain poses where "field r ''poses'' = Some (JList poses)"
    and "map (\<lambda>p. pose_field p ''frame'') poses =
       map (\<lambda>i. Some (JInt (i + 1)))
         (filter (\<lambda>i. i mod keyframe_step ?a = 0 \<or> i = frames ?a - 1) (range_py (frames ?a)))"
    by blast
  with r show "\<exists>r poses. generate_camera_animation ?a ''now'' = Inr r \<and>
      field r ''poses'' = Some (JList poses) \<and>
      map (\<lambda>p. pose_field p ''frame'') poses = [Some (JInt 1), Some (JInt 11), Some (JInt 21), Some (JInt 25)]"
    by (intro exI [of _ r] exI [of _ poses]) (simp add: range_py_def upto.simps)
next
  let ?a = "default_args\<lparr>frames := 3, keyframe_step := 1\<rparr>"
  from default_args_succeeds [of 1 3 "''now''"] obtain r
    where r: "generate_camera_animation ?a ''now'' = Inr r" by auto
  from keyframe_filtering [OF r] obtain poses where "field r ''poses'' = Some (JList poses)"
    and "keyframe_step ?a = 1 \<longrightarrow>
        map (\<lambda>p. pose_field p ''frame'') poses = map (\<lambda>i. Some (JInt (i + 1))) (range_py (frames ?a))"
    by blast
  with r show "\<exists>r poses. generate_camera_animation ?a ''now'' = Inr r \<and>
      field r ''poses'' = Some (JList poses) \<and>
      map (\<lambda>p. pose_field p ''frame'') poses = [Some (JInt 1), Some (JInt 2), Some (JInt 3)]"
    by (intro exI [of _ r] exI [of _ poses]) (simp add: range_py_def upto.simps)
qed

section \<open>Coordinate conversion and rounding (claim C7)\<close>



section \<open>The field of view (claim C8)\<close>

text \<open>
  Claim C8. For a finite sensor size \<open>s\<close> and a finite focal length \<open>f\<close> other than zero, so
  for every positive one, \<open>focal_length_to_fov\<close> returns \<open>2 arctan (s / (2 f))\<close> radians
  converted to degrees, that is multiplied by \<open>180 / \<pi>\<close>. Whenever generation returns a
  record, every pose carries that value rounded to 2 decimal digits. For a focal length of
  35 and a sensor size of 32 the value is within 0.01 of 49.13, and rounds to 49.13.
\<close>

theorem field_of_view:
  "(0 < f \<longrightarrow> 0 < s \<longrightarrow>
      focal_length_to_fov (Fin f) (Fin s) = Inr (Fin (2 * arctan (s / (2 * f)) * (180 / pi)))) \<and>
   (generate_camera_animation a now = Inr r \<longrightarrow>
      (\<exists>fov poses. focal_length_to_fov (focal_length a) (sensor_size a) = Inr fov \<and>
         field r ''poses'' = Some (JList poses) \<and>
         (\<forall>p \<in> set poses. pose_field p ''fov'' = Some (JFloat (py_round fov 2))))) \<and>
   (\<exists>v. focal_length_to_fov (Fin 35) (Fin 32) = Inr (Fin v) \<and> \<bar>v - 49.13\<bar> < 0.01 \<and>
      py_round (Fin v) 2 = Fin 49.13)"
proof (intro conjI impI)
  assume "0 < f"
  then show "focal_length_to_fov (Fin f) (Fin s) = Inr (Fin (2 * arctan (s / (2 * f)) * (180 / pi)))"
    by (intro focal_length_to_fov_Fin) simp
next
  assume gen: "generate_camera_animation a now = Inr r"
  from generate_Inr [OF gen] obtain ps ts fov
    where fov: "focal_length_to_fov (focal_length a) (sensor_size a) = Inr fov"
      and r: "r = json_record a now (emitted a fov ps ts)" by blast
  have fld: "field r ''poses'' = Some (JList (emitted a fov ps ts))"
    by (simp add: r field_json_record_fixed)
  have "\<forall>p \<in> set (emitted a fov ps ts). pose_field p ''fov'' = Some (JFloat (py_round fov 2))"
    by (auto dest!: emitted_pose simp: pose_field_pose_dict)
  with fov fld
  show "\<exists>fov poses. focal_length_to_fov (focal_length a) (sensor_size a) = Inr fov \<and>
         field r ''poses'' = Some (JList poses) \<and>
         (\<forall>p \<in> set poses. pose_field p ''fov'' = Some (JFloat (py_round fov 2)))"
    by blast
next
  let ?v = "2 * arctan (32 / (2 * 35)) * (180 / pi) :: real"
  have "\<bar>?v - 49.13\<bar> < 0.01" using fov_35_32_bounds by simp
  with fov_default fov_35_32_rounded
  show "\<exists>v. focal_length_to_fov (Fin 35) (Fin 32) = Inr (Fin v) \<and> \<bar>v - 49.13\<bar> < 0.01 \<and>
      py_round (Fin v) 2 = Fin 49.13"
    by blast
qed

theorem field_of_view_witness:
  "((0::real) < 16 \<and> (0::real) < 32 \<and> focal_length_to_fov (Fin 16) (Fin 32) = Inr (Fin 90)) \<and>
   (\<exists>r p. generate_camera_animation (default_args\<lparr>frames := 1\<rparr>) ''now'' = Inr r \<and>
      field r ''poses'' = Some (JList [p]) \<and> pose_field p ''fov'' = Some (JFloat (Fin 49.13)))"
proof (rule conjI)
  from field_of_view [where f = 16 and s = 32]
  have "focal_length_to_fov (Fin 16) (Fin 32) = Inr (Fin (2 * arctan (32 / (2 * 16)) * (180 / pi)))"
    by simp
  then show "(0::real) < 16 \<and> (0::real) < 32 \<and> focal_length_to_fov (Fin 16) (Fin 32) = Inr (Fin 90)"
    by (simp add: arctan_one)
next
  let ?a = "default_args\<lparr>frames := 1\<rparr>"
  let ?fov = "Fin (2 * arctan (32 / (2 * 35)) * (180 / pi))"
  have ps: "sample_positions ?a = Inr [(Fin 10, Fin 0, Fin 0)]"
    by (simp add: sample_positions_def default_args_def calculate_circular_path_Fin range_py_def circular_angle_def)
  have ts: "target_list ?a [(Fin 10, Fin 0, Fin 0)] = Inr [(Fin 0, Fin 0, Fin 0)]"
    by (simp add: target_list_def default_args_def)
  have fov: "focal_length_to_fov (focal_length ?a) (sensor_size ?a) = Inr ?fov"
    by (simp add: default_args_def fov_default)
  have "generate_camera_animation ?a ''now'' =
      Inr (json_record ?a ''now'' (emitted ?a ?fov [(Fin 10, Fin 0, Fin 0)] [(Fin 0, Fin 0, Fin 0)]))"
    by (rule generate_total [OF ps ts fov]) (simp_all add: default_args_def)
  moreover have "emitted ?a ?fov [(Fin 10, Fin 0, Fin 0)] [(Fin 0, Fin 0, Fin 0)] =
      [pose_dict ?a ?fov 0 (Fin 10, Fin 0, Fin 0) (Fin 0, Fin 0, Fin 0)]"
    by (simp add: emitted_def is_keyframe_def final_point_def default_args_def)
  ultimately have r: "generate_camera_animation ?a ''now'' =
      Inr (json_record ?a ''now'' [pose_dict ?a ?fov 0 (Fin 10, Fin 0, Fin 0) (Fin 0, Fin 0, Fin 0)])"
    by simp
  let ?p = "pose_dict ?a ?fov 0 (Fin 10, Fin 0, Fin 0) (Fin 0, Fin 0, Fin 0)"
  let ?r = "json_record ?a ''now'' [?p]"
  from field_of_view [where a = ?a and now = "''now''" and r = ?r]
  have "generate_camera_animation ?a ''now'' = Inr ?r \<longrightarrow>
      (\<exists>fov poses. focal_length_to_fov (focal_length ?a) (sensor_size ?a) = Inr fov \<and>
         field ?r ''poses'' = Some (JList poses) \<and>
         (\<forall>p \<in> set poses. pose_field p ''fov'' = Some (JFloat (py_round fov 2))))"
    by blast
  with r obtain fv poses where fv: "focal_length_to_fov (focal_length ?a) (sensor_size ?a) = Inr fv"
    and fld: "field ?r ''poses'' = Some (JList poses)"
    and each: "\<forall>p \<in> set poses. pose_field p ''fov'' = Some (JFloat (py_round fv 2))"
    by blast
  from fv fov have fv_eq: "fv = ?fov" by simp
  from fld have poses: "poses = [?p]" by (simp add: field_json_record_fixed)
  from each poses have "pose_field ?p ''fov'' = Some (JFloat (py_round fv 2))" by simp
  then have "pose_field ?p ''fov'' = Some (JFloat (Fin 49.13))"
    by (simp only: fv_eq fov_35_32_rounded)
  with r fld poses show "\<exists>r p. generate_camera_animation ?a ''now'' = Inr r \<and>
      field r ''poses'' = Some (JList [p]) \<and> pose_field p ''fov'' = Some (JFloat (Fin 49.13))"
    by (intro exI [of _ ?r] exI [of _ ?p]) simp
qed

section \<open>Which target wins (claim C9)\<close>

text \<open>
  Claim C9. Whenever generation returns a record, with positions \<open>ps\<close> sampled and targets
  \<open>ts\<close> resolved, every pose of frame index \<open>k\<close> carries the target \<open>ts ! k\<close> after conversion
  and rounding, and:
  \<^item> if a target distance \<open>d\<close> is given (with or without a fixed target), \<open>ts ! k\<close> is the
    distance-derived target of \<open>ps ! k\<close> for every frame, and the record has the key
    \<open>target_distance\<close> with value \<open>d\<close> and no key \<open>target\<close>;
  \<^item> if only a fixed target \<open>t\<close> is given, every \<open>ts ! k\<close> is \<open>t\<close>, and the record has the key
    \<open>target\<close> and no key \<open>target_distance\<close>;
  \<^item> if neither is given, every \<open>ts ! k\<close> is the center, and the record has neither key.
\<close>

theorem target_precedence:
  assumes "generate_camera_animation a now = Inr r"
  shows "\<exists>ps ts poses. sample_positions a = Inr ps \<and> target_list a ps = Inr ts \<and>
     length ps = nat (frames a) \<and> length ts = nat (frames a) \<and>
     field r ''poses'' = Some (JList poses) \<and>
     (\<forall>p \<in> set poses. \<exists>k < nat (frames a).
        pose_field p ''frame'' = Some (JInt (int k + 1)) \<and>
        pose_field p ''target'' = Some (list_of_vec3 (final_point a (ts ! k)))) \<and>
     (case target_distance a of
        Some d \<Rightarrow>
          (\<forall>k < nat (frames a). calculate_target_from_distance (ps ! k) (center a) d = Inr (ts ! k)) \<and>
          field r ''target_distance'' = Some (JFloat d) \<and> field r ''target'' = None
      | None \<Rightarrow>
          (case target a of
             Some t \<Rightarrow>
               (\<forall>k < nat (frames a). ts ! k = t) \<and>
               field r ''target'' = Some (list_of_vec3 t) \<and> field r ''target_distance'' = None
           | None \<Rightarrow>
               (\<forall>k < nat (frames a). ts ! k = center a) \<and>
               field r ''target'' = None \<and> field r ''target_distance'' = None))"
proof -
  from generate_Inr [OF assms] obtain ps ts fov
    where ps: "sample_positions a = Inr ps" and ts: "target_list a ps = Inr ts"
      and lp: "length ps = nat (frames a)" and lt: "length ts = nat (frames a)"
      and r: "r = json_record a now (emitted a fov ps ts)" by blast
  let ?poses = "emitted a fov ps ts"
  have fld: "field r ''poses'' = Some (JList ?poses)"
    by (simp add: r field_json_record_fixed)
  have each: "\<forall>p \<in> set ?poses. \<exists>k < nat (frames a).
        pose_field p ''frame'' = Some (JInt (int k + 1)) \<and>
        pose_field p ''target'' = Some (list_of_vec3 (final_point a (ts ! k)))"
  proof
    fix p assume "p \<in> set ?poses"
    from emitted_pose [OF this] obtain k where "k < nat (frames a)"
      and "p = pose_dict a fov (int k) (final_point a (ps ! k)) (final_point a (ts ! k))" by blast
    then show "\<exists>k < nat (frames a).
        pose_field p ''frame'' = Some (JInt (int k + 1)) \<and>
        pose_field p ''target'' = Some (list_of_vec3 (final_point a (ts ! k)))"
      by (auto simp: pose_field_pose_dict)
  qed
  have which: "case target_distance a of
        Some d \<Rightarrow>
          (\<forall>k < nat (frames a). calculate_target_from_distance (ps ! k) (center a) d = Inr (ts ! k)) \<and>
          field r ''target_distance'' = Some (JFloat d) \<and> field r ''target'' = None
      | None \<Rightarrow>
          (case target a of
             Some t \<Rightarrow>
               (\<forall>k < nat (frames a). ts ! k = t) \<and>
               field r ''target'' = Some (list_of_vec3 t) \<and> field r ''target_distance'' = None
           | None \<Rightarrow>
               (\<forall>k < nat (frames a). ts ! k = center a) \<and>
               field r ''target'' = None \<and> field r ''target_distance'' = None)"
  proof (cases "target_distance a")
    case (Some d)
    with ts have "traverse (\<lambda>pos. calculate_target_from_distance pos (center a) d) ps = Inr ts"
      by (simp add: target_list_def)
    from traverse_Inr_nth [OF this] lp
    have "\<forall>k < nat (frames a). calculate_target_from_distance (ps ! k) (center a) d = Inr (ts ! k)"
      by simp
    with Some show ?thesis by (simp add: r field_json_record_target)
  next
    case None
    with ts show ?thesis
      by (auto simp: target_list_def r field_json_record_target split: option.splits)
  qed
  from ps ts lp lt fld each which show ?thesis by blast
qed

theorem target_precedence_witness:
  "(\<exists>r ps ts. generate_camera_animation
          (default_args\<lparr>target := Some (Fin 1, Fin 2, Fin 3), target_distance := Some (Fin 5), frames := 1\<rparr>)
          ''now'' = Inr r \<and>
        sample_positions
          (default_args\<lparr>target := Some (Fin 1, Fin 2, Fin 3), target_distance := Some (Fin 5), frames := 1\<rparr>) = Inr ps \<and>
        target_list
          (default_args\<lparr>target := Some (Fin 1, Fin 2, Fin 3), target_distance := Some (Fin 5), frames := 1\<rparr>) ps = Inr ts \<and>
        (0::nat) < nat 1 \<and> ps ! 0 = (Fin 10, Fin 0, Fin 0) \<and> ts ! 0 = (Fin 5, Fin 0, Fin 0) \<and>
        field r ''target_distance'' = Some (JFloat (Fin 5)) \<and> field r ''target'' = None) \<and>
   (\<exists>r ps ts. generate_camera_animation
          (default_args\<lparr>target := Some (Fin 1, Fin 2, Fin 3), target_distance := None, frames := 1\<rparr>) ''now'' = Inr r \<and>
        target_list
          (default_args\<lparr>target := Some (Fin 1, Fin 2, Fin 3), target_distance := None, frames := 1\<rparr>) ps = Inr ts \<and>
        (0::nat) < nat 1 \<and> ts ! 0 = (Fin 1, Fin 2, Fin 3) \<and>
        field r ''target'' = Some (JList [JFloat (Fin 1), JFloat (Fin 2), JFloat (Fin 3)]) \<and>
        field r ''target_distance'' = None) \<and>
   (\<exists>r ps ts. generate_camera_animation
          (default_args\<lparr>target := None, target_distance := None, frames := 1\<rparr>) ''now'' = Inr r \<and>
        target_list (default_args\<lparr>target := None, target_distance := None, frames := 1\<rparr>) ps = Inr ts \<and>
        (0::nat) < nat 1 \<and> ts ! 0 = (Fin 0, Fin 0, Fin 0) \<and>
        field r ''target'' = None \<and> field r ''target_distance'' = None)"
proof (intro conjI)
  let ?a = "default_args\<lparr>target := Some (Fin 1, Fin 2, Fin 3), target_distance := Some (Fin 5), frames := 1\<rparr>"
  have "\<exists>r. generate_camera_animation ?a ''now'' = Inr r"
    by (intro generate_succeeds) (simp_all add: default_args_def finite_args_def is_finite_def)
  then obtain r where r: "generate_camera_animation ?a ''now'' = Inr r" ..
  from target_precedence [OF r] obtain ps ts where ps: "sample_positions ?a = Inr ps"
    and ts: "target_list ?a ps = Inr ts"
    and which: "case target_distance ?a of
        Some d \<Rightarrow>
          (\<forall>k < nat (frames ?a). calculate_target_from_distance (ps ! k) (center ?a) d = Inr (ts ! k)) \<and>
          field r ''target_distance'' = Some (JFloat d) \<and> field r ''target'' = None
      | None \<Rightarrow>
          (case target ?a of
             Some t \<Rightarrow>
               (\<forall>k < nat (frames ?a). ts ! k = t) \<and>
               field r ''target'' = Some (list_of_vec3 t) \<and> field r ''target_distance'' = None
           | None \<Rightarrow>
               (\<forall>k < nat (frames ?a). ts ! k = center ?a) \<and>
               field r ''target'' = None \<and> field r ''target_distance'' = None)"
    by blast
  from ps have ps_eq: "ps = [(Fin 10, Fin 0, Fin 0)]" by (simp add: default_positions_1)
  from which have "calculate_target_from_distance (ps ! 0) (Fin 0, Fin 0, Fin 0) (Fin 5) = Inr (ts ! 0)"
    and flds: "field r ''target_distance'' = Some (JFloat (Fin 5))" "field r ''target'' = None"
    by (simp_all add: default_args_def del: calculate_target_from_distance.simps)
  then have "ts ! 0 = (Fin 5, Fin 0, Fin 0)"
    by (simp add: ps_eq target_example del: calculate_target_from_distance.simps)
  with r ps ts ps_eq flds
  show "\<exists>r ps ts. generate_camera_animation ?a ''now'' = Inr r \<and> sample_positions ?a = Inr ps \<and>
        target_list ?a ps = Inr ts \<and>
        (0::nat) < nat 1 \<and> ps ! 0 = (Fin 10, Fin 0, Fin 0) \<and> ts ! 0 = (Fin 5, Fin 0, Fin 0) \<and>
        field r ''target_distance'' = Some (JFloat (Fin 5)) \<and> field r ''target'' = None"
    by (intro exI [of _ r] exI [of _ ps] exI [of _ ts]) simp
next
  let ?a = "default_args\<lparr>target := Some (Fin 1, Fin 2, Fin 3), target_distance := None, frames := 1\<rparr>"
  have "\<exists>r. generate_camera_animation ?a ''now'' = Inr r"
    by (intro generate_succeeds) (simp_all add: default_args_def finite_args_def is_finite_def)
  then obtain r where r: "generate_camera_animation ?a ''now'' = Inr r" ..
  from target_precedence [OF r] obtain ps ts where ts: "target_list ?a ps = Inr ts"
    and which: "case target_distance ?a of
        Some d \<Rightarrow>
          (\<forall>k < nat (frames ?a). calculate_target_from_distance (ps ! k) (center ?a) d = Inr (ts ! k)) \<and>
          field r ''target_distance'' = Some (JFloat d) \<and> field r ''target'' = None
      | None \<Rightarrow>
          (case target ?a of
             Some t \<Rightarrow>
               (\<forall>k < nat (frames ?a). ts ! k = t) \<and>
               field r ''target'' = Some (list_of_vec3 t) \<and> field r ''target_distance'' = None
           | None \<Rightarrow>
               (\<forall>k < nat (frames ?a). ts ! k = center ?a) \<and>
               field r ''target'' = None \<and> field r ''target_distance'' = None)"
    by blast
  from which have "ts ! 0 = (Fin 1, Fin 2, Fin 3)"
    and "field r ''target'' = Some (JList [JFloat (Fin 1), JFloat (Fin 2), JFloat (Fin 3)])"
    and "field r ''target_distance'' = None"
    by (simp_all add: default_args_def)
  with r ts
  show "\<exists>r ps ts. generate_camera_animation ?a ''now'' = Inr r \<and> target_list ?a ps = Inr ts \<and>
        (0::nat) < nat 1 \<and> ts ! 0 = (Fin 1, Fin 2, Fin 3) \<and>
        field r ''target'' = Some (JList [JFloat (Fin 1), JFloat (Fin 2), JFloat (Fin 3)]) \<and>
        field r ''target_distance'' = None"
    by (intro exI [of _ r] exI [of _ ps] exI [of _ ts]) simp
next
  let ?a = "default_args\<lparr>target := None, target_distance := None, frames := 1\<rparr>"
  have "\<exists>r. generate_camera_animation ?a ''now'' = Inr r"
    by (intro generate_succeeds) (simp_all add: default_args_def finite_args_def is_finite_def)
  then obtain r where r: "generate_camera_animation ?a ''now'' = Inr r" ..
  from target_precedence [OF r] obtain ps ts where ts: "target_list ?a ps = Inr ts"
    and which: "case target_distance ?a of
        Some d \<Rightarrow>
          (\<forall>k < nat (frames ?a). calculate_target_from_distance (ps ! k) (center ?a) d = Inr (ts ! k)) \<and>
          field r ''target_distance'' = Some (JFloat d) \<and> field r ''target'' = None
      | None \<Rightarrow>
          (case target ?a of
             Some t \<Rightarrow>
               (\<forall>k < nat (frames ?a). ts ! k = t) \<and>
               field r ''target'' = Some (list_of_vec3 t) \<and> field r ''target_distance'' = None
           | None \<Rightarrow>
               (\<forall>k < nat (frames ?a). ts ! k = center ?a) \<and>
               field r ''target'' = None \<and> field r ''target_distance'' = None)"
    by blast
  from which have "ts ! 0 = (Fin 0, Fin 0, Fin 0)"
    and "field r ''target'' = None" and "field r ''target_distance'' = None"
    by (simp_all add: default_args_def)
  with r ts
  show "\<exists>r ps ts. generate_camera_animation ?a ''now'' = Inr r \<and> target_list ?a ps = Inr ts \<and>
        (0::nat) < nat 1 \<and> ts ! 0 = (Fin 0, Fin 0, Fin 0) \<and>
        field r ''target'' = None \<and> field r ''target_distance'' = None"
    by (intro exI [of _ r] exI [of _ ps] exI [of _ ts]) simp
qed

section \<open>The metadata of the record (claim C10)\<close>

text \<open>
  Claim C10. Whenever generation returns a record, its \<open>keyframes_generated\<close> is the number
  of entries of its \<open>poses\<close>, its \<open>frame_start\<close> and \<open>frame_step\<close> are 1, and its \<open>frame_end\<close>
  and \<open>total_frames\<close> are the requested frame count, whatever the keyframe step is.
\<close>

theorem record_metadata:
  assumes "generate_camera_animation a now = Inr r"
  shows "\<exists>poses. field r ''poses'' = Some (JList poses) \<and>
     field r ''keyframes_generated'' = Some (JInt (int (length poses))) \<and>
     field r ''frame_start'' = Some (JInt 1) \<and>
     field r ''frame_end'' = Some (JInt (frames a)) \<and>
     field r ''total_frames'' = Some (JInt (frames a)) \<and>
     field r ''frame_step'' = Some (JInt 1)"
proof -
  from generate_Inr [OF assms] obtain ps ts fov
    where "r = json_record a now (emitted a fov ps ts)" by blast
  then show ?thesis by (simp add: field_json_record_fixed)
qed

theorem record_metadata_witness:
  "\<exists>r poses. generate_camera_animation (default_args\<lparr>frames := 25, keyframe_step := 10\<rparr>) ''now'' = Inr r \<and>
     field r ''poses'' = Some (JList poses) \<and>
     field r ''keyframes_generated'' = Some (JInt (int (length poses))) \<and>
     field r ''frame_start'' = Some (JInt 1) \<and>
     field r ''frame_end'' = Some (JInt 25) \<and>
     field r ''total_frames'' = Some (JInt 25) \<and>
     field r ''frame_step'' = Some (JInt 1)"
proof -
  let ?a = "default_args\<lparr>frames := 25, keyframe_step := 10\<rparr>"
  from default_args_succeeds [of 10 25 "''now''"] obtain r
    where r: "generate_camera_animation ?a ''now'' = Inr r" by auto
  from record_metadata [OF r] r show ?thesis by auto
qed

end
